theory Spec2Isabelle
  imports Main
begin

section \<open>Python values read by the ISO build runner\<close>

text \<open>
  The runner (\<^verbatim>\<open>spark/runners/iso_build.py\<close>, class \<^verbatim>\<open>IsoBuilder\<close>) reads a job
  descriptor with \<^verbatim>\<open>.get\<close>, tests the values it finds with \<^verbatim>\<open>if not v\<close>, renders them
  with \<^verbatim>\<open>str.format\<close> and passes them to \<^verbatim>\<open>shlex.quote\<close>.  A value is therefore
  known to the runner by three things only: whether it is \<^verbatim>\<open>None\<close>, a \<^verbatim>\<open>str\<close> or
  something else, its truth value, and its \<^verbatim>\<open>str()\<close> rendering.

  \<^item> \<open>PyNone\<close> is \<^verbatim>\<open>None\<close>, which is also what \<^verbatim>\<open>.get\<close> returns for a missing key;
  \<^item> \<open>PyStr s\<close> is a \<^verbatim>\<open>str\<close>, held as its UTF-8 bytes;
  \<^item> \<open>PyObj t r\<close> is any other object (a number, a list, a nested mapping), given by
    its truth value \<open>t\<close> and its \<^verbatim>\<open>str()\<close> rendering \<open>r\<close>.
\<close>

datatype pyval = PyNone | PyStr string | PyObj bool string

text \<open>The exceptions that can leave the runner's methods.  \<open>SandboxFault\<close> stands for
  whatever a call into \<^verbatim>\<open>spark.utils.schroot\<close> raises.\<close>

datatype pyerr = AttributeError | TypeError | SandboxFault string

text \<open>Truth value testing (\<^verbatim>\<open>if not v\<close>): \<^verbatim>\<open>None\<close> and the empty string are false.\<close>

fun truthy :: "pyval \<Rightarrow> bool" where
  "truthy PyNone = False"
| "truthy (PyStr s) = (s \<noteq> [])"
| "truthy (PyObj t r) = t"

text \<open>What a replacement field \<^verbatim>\<open>{}\<close> of \<^verbatim>\<open>str.format\<close> inserts for a value.\<close>

fun py_str :: "pyval \<Rightarrow> string" where
  "py_str PyNone = ''None''"
| "py_str (PyStr s) = s"
| "py_str (PyObj t r) = r"

text \<open>A \<^verbatim>\<open>dict\<close> with string keys; \<^verbatim>\<open>d.get(k)\<close> returns \<^verbatim>\<open>None\<close> for a missing key.\<close>

type_synonym pydict = "(string \<times> pyval) list"

definition dict_get :: "pydict \<Rightarrow> string \<Rightarrow> pyval" where
  "dict_get d k = (case map_of d k of None \<Rightarrow> PyNone | Some v \<Rightarrow> v)"

text \<open>
  The value stored under the key \<^verbatim>\<open>data\<close> is the only one on which the runner calls
  \<^verbatim>\<open>.get\<close> again, so it is either a mapping or a value without that method.
\<close>

datatype pyfield = Value pyval | Mapping pydict

fun field_truthy :: "pyfield \<Rightarrow> bool" where
  "field_truthy (Value v) = truthy v"
| "field_truthy (Mapping d) = (d \<noteq> [])"

text \<open>
  The job descriptor.  Each field is what \<^verbatim>\<open>job.get('<name>')\<close> returns, \<open>PyNone\<close> when
  the key is absent.  \<^verbatim>\<open>set_job\<close> reads \<^verbatim>\<open>data\<close> and \<^verbatim>\<open>architecture\<close>; the top-level
  \<^verbatim>\<open>suite\<close> is carried because the data model lists it, and no line of the runner reads it.
\<close>

record job =
  suite :: pyval
  architecture :: pyval
  data :: pyfield

section \<open>\<^verbatim>\<open>shlex.quote\<close>\<close>

text \<open>
  The standard library's function, as \<^verbatim>\<open>iso_build.py\<close> imports it:
  \<^verbatim>\<open>
  _find_unsafe = re.compile(r'[^\w@%+=:,./-]', re.ASCII).search

  def quote(s):
      if not s:
          return "''"
      if _find_unsafe(s) is None:
          return s
      return "'" + s.replace("'", "'\"'\"'") + "'"
  \<close>
  With \<^verbatim>\<open>re.ASCII\<close>, \<^verbatim>\<open>\w\<close> is a letter, a digit or the underscore, so every byte of a
  non-ASCII character is unsafe.  The truth test comes first: a false value of any type
  gives the two quote characters, and only a true value that is not a string reaches the
  regular expression, which raises \<^verbatim>\<open>TypeError\<close> on it.
\<close>

definition safe_chars :: string where
  \<open>safe_chars = ''abcdefghijklmnopqrstuvwxyz'' @ ''ABCDEFGHIJKLMNOPQRSTUVWXYZ''
     @ ''0123456789'' @ ''_@%+=:,./-''\<close>

definition is_safe :: "char \<Rightarrow> bool" where
  "is_safe c = (c \<in> set safe_chars)"

definition find_unsafe :: "string \<Rightarrow> bool" where
  "find_unsafe s = (\<not> list_all is_safe s)"

text \<open>\<^verbatim>\<open>s.replace(old, new)\<close> for a one-character \<^verbatim>\<open>old\<close>.\<close>

definition replace_char :: "char \<Rightarrow> string \<Rightarrow> string \<Rightarrow> string" where
  "replace_char old new s = concat (map (\<lambda>c. if c = old then new else [c]) s)"

definition shlex_quote :: "pyval \<Rightarrow> pyerr + string" where
  "shlex_quote v =
     (if \<not> truthy v then Inr [CHR 0x27, CHR 0x27]
      else case v of
        PyStr s \<Rightarrow>
          if \<not> find_unsafe s then Inr s
          else Inr ([CHR 0x27]
                    @ replace_char (CHR 0x27) [CHR 0x27, CHR 0x22, CHR 0x27, CHR 0x22, CHR 0x27] s
                    @ [CHR 0x27])
      | _ \<Rightarrow> Inl TypeError)"

section \<open>The runner's state and \<^verbatim>\<open>set_job\<close>\<close>

text \<open>
  The attributes of an \<^verbatim>\<open>IsoBuilder\<close> instance.  \<^verbatim>\<open>__init__\<close> assigns none of them, so
  each is \<open>None\<close> until an assignment to it has run.
\<close>

record 'w iso_builder =
  workspace :: "'w option"
  job_data :: "pyfield option"
  chroot_name :: "string option"

definition init :: "'w iso_builder" where
  "init = \<lparr>workspace = None, job_data = None, chroot_name = None\<rparr>"

text \<open>
  \<^verbatim>\<open>
  def set_job(self, job, workspace):
      self._workspace = workspace
      self._job_data = job.get('data')
      if not self._job_data:
          return False
      suite_name = self._job_data.get('suite')
      arch = job.get('architecture')
      if not suite_name:
          return False
      if not arch:
          return False
      self._chroot_name = '{0}-{1}'.format(suite_name, arch)
      return True
  \<close>
  The result pairs what the call returns (or raises) with the instance afterwards.
\<close>

definition set_job :: "job \<Rightarrow> 'w \<Rightarrow> 'w iso_builder \<Rightarrow> (pyerr + bool) \<times> 'w iso_builder" where
  "set_job j w self =
     (let self = self\<lparr>workspace := Some w\<rparr>;
          self = self\<lparr>job_data := Some (data j)\<rparr>
      in if \<not> field_truthy (data j) then (Inr False, self)
         else case data j of
           Value v \<Rightarrow> (Inl AttributeError, self)
         | Mapping d \<Rightarrow>
             let suite_name = dict_get d ''suite'';
                 arch = architecture j
             in if \<not> truthy suite_name then (Inr False, self)
                else if \<not> truthy arch then (Inr False, self)
                else (Inr True,
                      self\<lparr>chroot_name := Some (py_str suite_name @ ''-'' @ py_str arch)\<rparr>))"

section \<open>The sandbox provider\<close>

text \<open>
  \<^verbatim>\<open>run\<close> drives five functions of \<^verbatim>\<open>spark.utils.schroot\<close>, which is not among the
  sources, and two of them are context managers.  They are a parameter of the model: a
  \<open>provider\<close> says, for each call and its arguments, what the call returns (\<open>Inr\<close>) or
  raises (\<open>Inl\<close>), the exit hooks of the two context managers included.  The log object
  \<^verbatim>\<open>jlog\<close> that the runner hands on to them is read by the runner for its \<^verbatim>\<open>job_id\<close> only.

  \<^item> \<open>spark_schroot name job_id\<close>: entering the context manager yields the triple
    \<^verbatim>\<open>(chroot, wsdir, results_dir)\<close>;
  \<^item> \<open>chroot_upgrade chroot\<close>: the runner discards what it returns;
  \<^item> \<open>chroot_run_logged chroot argv user\<close>: the exit status of the command;
  \<^item> \<open>make_commandfile job_id commands\<close>: entering yields the script's file name;
  \<^item> \<open>chroot_copy chroot local remote\<close>;
  \<^item> \<open>schroot_exit chroot exc\<close>: the exit hook of \<^verbatim>\<open>spark_schroot\<close>, which releases the
    sandbox.  \<open>exc\<close> is the exception in flight when the block was left by one.  The hook
    raises, or returns; the truth value of what it returns matters when an exception is
    in flight: a true value swallows it;
  \<^item> \<open>commandfile_exit shfname exc\<close>: the exit hook of \<^verbatim>\<open>make_commandfile\<close>, likewise.
\<close>

type_synonym chroot = string

record provider =
  spark_schroot :: "string \<Rightarrow> string \<Rightarrow> pyerr + chroot \<times> string \<times> string"
  chroot_upgrade :: "chroot \<Rightarrow> pyerr + bool"
  chroot_run_logged :: "chroot \<Rightarrow> string list \<Rightarrow> string \<Rightarrow> pyerr + int"
  make_commandfile :: "string \<Rightarrow> string list \<Rightarrow> pyerr + string"
  chroot_copy :: "chroot \<Rightarrow> string \<Rightarrow> string \<Rightarrow> pyerr + unit"
  schroot_exit :: "chroot \<Rightarrow> pyerr option \<Rightarrow> pyerr + bool"
  commandfile_exit :: "string \<Rightarrow> pyerr option \<Rightarrow> pyerr + bool"

record joblog =
  job_id :: string

text \<open>
  The trace of a run: every call into the provider, in order, with what it answered,
  the two exit hooks of the \<^verbatim>\<open>with\<close> statements included.
\<close>

datatype event =
    SparkSchroot string string "pyerr + chroot \<times> string \<times> string"
  | SchrootExit chroot "pyerr option" "pyerr + bool"
  | ChrootUpgrade chroot "pyerr + bool"
  | ChrootRunLogged chroot "string list" string "pyerr + int"
  | MakeCommandfile string "string list" "pyerr + string"
  | CommandfileExit string "pyerr option" "pyerr + bool"
  | ChrootCopy chroot string string "pyerr + unit"

text \<open>How a block of statements ends: it runs off its end, returns, or raises.\<close>

datatype flow = Fallthrough | Return bool | Raise pyerr

text \<open>
  Leaving a \<^verbatim>\<open>with\<close> block.  The statement calls the exit hook of its context manager
  once, however the block was left, and hands it the exception in flight, if any.  When
  the hook raises, that exception leaves the statement in place of whatever the block did.
  When the hook returns a true value and an exception was in flight, the exception is
  swallowed and execution goes on after the statement.  Otherwise the block's return or
  exception goes through.
\<close>

fun in_flight :: "flow \<Rightarrow> pyerr option" where
  "in_flight (Raise e) = Some e"
| "in_flight fl = None"

fun leave_with :: "flow \<Rightarrow> pyerr + bool \<Rightarrow> flow" where
  "leave_with fl (Inl e) = Raise e"
| "leave_with (Raise e) (Inr swallow) = (if swallow then Fallthrough else Raise e)"
| "leave_with fl (Inr b) = fl"

section \<open>\<^verbatim>\<open>run\<close>\<close>

text \<open>\<^verbatim>\<open>self._job_data.get(k)\<close>: an \<^verbatim>\<open>AttributeError\<close> when the attribute was never
  assigned or holds a value without \<^verbatim>\<open>.get\<close>.\<close>

definition job_data_get :: "'w iso_builder \<Rightarrow> string \<Rightarrow> pyerr + pyval" where
  "job_data_get self k =
     (case job_data self of
        None \<Rightarrow> Inl AttributeError
      | Some (Value v) \<Rightarrow> Inl AttributeError
      | Some (Mapping d) \<Rightarrow> Inr (dict_get d k))"

text \<open>
  Lines 63 to 89, the construction of the list \<^verbatim>\<open>commands\<close>:
  \<^verbatim>\<open>
  commands = []
  commands.append('export DEBIAN_FRONTEND=noninteractive')
  commands.append('cd {}'.format(wsdir))
  commands.append('git clone --depth=2 {0} {1}/lb'.format(
      shlex.quote(self._job_data.get('liveBuildGit')), wsdir))
  commands.append('cd ./lb')
  flavor = self._job_data.get('flavor')
  if flavor:
      commands.append('export FLAVOR="{}"'.format(shlex.quote(flavor)))
  commands.append('lb config')
  commands.append('lb build')
  commands.append('b2sum *.iso *.contents *.zsync *.packages > checksums.b2sum')
  commands.append('sha256sum *.iso *.contents *.zsync *.packages > checksums.sha256sum')
  commands.append('mv *.iso {}/'.format(results_dir))
  commands.append('mv -f *.zsync {}/'.format(results_dir))
  commands.append('mv -f *.contents {}/'.format(results_dir))
  commands.append('mv -f *.files {}/'.format(results_dir))
  commands.append('mv -f *.packages {}/'.format(results_dir))
  commands.append('mv -f *.b2sum {}/'.format(results_dir))
  commands.append('mv -f *.sha256sum {}/'.format(results_dir))
  \<close>
  \<open>append\<close> is \<^verbatim>\<open>list.append\<close>; each \<open>let\<close> is one statement.
\<close>

definition append :: "string list \<Rightarrow> string \<Rightarrow> string list" where
  "append commands c = commands @ [c]"

definition flavor_export :: "string list \<Rightarrow> pyval \<Rightarrow> pyerr + string list" where
  \<open>flavor_export commands flavor =
     (if truthy flavor then
        (case shlex_quote flavor of
           Inl e \<Rightarrow> Inl e
         | Inr q \<Rightarrow> Inr (append commands (''export FLAVOR="'' @ q @ ''"'')))
      else Inr commands)\<close>

definition save_artifacts :: "string list \<Rightarrow> string \<Rightarrow> string list" where
  "save_artifacts commands results_dir =
     (let commands = append commands (''mv *.iso '' @ results_dir @ ''/'');
          commands = append commands (''mv -f *.zsync '' @ results_dir @ ''/'');
          commands = append commands (''mv -f *.contents '' @ results_dir @ ''/'');
          commands = append commands (''mv -f *.files '' @ results_dir @ ''/'');
          commands = append commands (''mv -f *.packages '' @ results_dir @ ''/'');
          commands = append commands (''mv -f *.b2sum '' @ results_dir @ ''/'');
          commands = append commands (''mv -f *.sha256sum '' @ results_dir @ ''/'')
      in commands)"

definition build_commands :: "'w iso_builder \<Rightarrow> string \<Rightarrow> string \<Rightarrow> pyerr + string list" where
  "build_commands self wsdir results_dir =
     (let commands = [];
          commands = append commands ''export DEBIAN_FRONTEND=noninteractive'';
          commands = append commands (''cd '' @ wsdir)
      in case job_data_get self ''liveBuildGit'' of
           Inl e \<Rightarrow> Inl e
         | Inr url \<Rightarrow>
        (case shlex_quote url of
           Inl e \<Rightarrow> Inl e
         | Inr q \<Rightarrow>
        (let commands = append commands (''git clone --depth=2 '' @ q @ '' '' @ wsdir @ ''/lb'');
             commands = append commands ''cd ./lb''
         in case job_data_get self ''flavor'' of
              Inl e \<Rightarrow> Inl e
            | Inr flavor \<Rightarrow>
           (case flavor_export commands flavor of
              Inl e \<Rightarrow> Inl e
            | Inr commands \<Rightarrow>
           (let commands = append commands ''lb config'';
                commands = append commands ''lb build'';
                commands = append commands
                  ''b2sum *.iso *.contents *.zsync *.packages > checksums.b2sum'';
                commands = append commands
                  ''sha256sum *.iso *.contents *.zsync *.packages > checksums.sha256sum''
            in Inr (save_artifacts commands results_dir))))))"

text \<open>
  Lines 92 to 98, the block of \<^verbatim>\<open>with make_commandfile(...) as shfname\<close>.  The second
  component is the variable \<^verbatim>\<open>ret\<close> as the block leaves it.
  \<^verbatim>\<open>
  chroot_copy(chroot, shfname, shfname)
  ret = chroot_run_logged(chroot, jlog, ['sh', '-e', shfname], user='root')
  if ret:
      return False
  \<close>
\<close>

definition run_commandfile ::
  "provider \<Rightarrow> chroot \<Rightarrow> string \<Rightarrow> int \<Rightarrow> (flow \<times> int) \<times> event list" where
  "run_commandfile P chroot shfname ret =
     (let c = chroot_copy P chroot shfname shfname;
          tr = [ChrootCopy chroot shfname shfname c]
      in case c of
           Inl e \<Rightarrow> ((Raise e, ret), tr)
         | Inr u \<Rightarrow>
        (let r = chroot_run_logged P chroot [''sh'', ''-e'', shfname] ''root'';
             tr = tr @ [ChrootRunLogged chroot [''sh'', ''-e'', shfname] ''root'' r]
         in (case r of
               Inl e \<Rightarrow> ((Raise e, ret), tr)
             | Inr ret \<Rightarrow> ((if ret \<noteq> 0 then Return False else Fallthrough, ret), tr))))"

text \<open>
  Lines 61 to 101: the script is built, written to a command file, copied and run.
  After the inner \<^verbatim>\<open>with\<close> the source tests \<^verbatim>\<open>ret\<close> a second time; \<^verbatim>\<open>ret\<close> is then
  what the block left in it.
\<close>

definition run_build ::
  "provider \<Rightarrow> joblog \<Rightarrow> 'w iso_builder \<Rightarrow> chroot \<Rightarrow> string \<Rightarrow> string \<Rightarrow> int
     \<Rightarrow> flow \<times> event list" where
  "run_build P jlog self chroot wsdir results_dir ret =
     (case build_commands self wsdir results_dir of
        Inl e \<Rightarrow> (Raise e, [])
      | Inr commands \<Rightarrow>
     (let m = make_commandfile P (job_id jlog) commands;
          tr = [MakeCommandfile (job_id jlog) commands m]
      in (case m of
            Inl e \<Rightarrow> (Raise e, tr)
          | Inr shfname \<Rightarrow>
         (let body = run_commandfile P chroot shfname ret;
              ret = snd (fst body);
              exc = in_flight (fst (fst body));
              hook = commandfile_exit P shfname exc;
              tr = tr @ snd body @ [CommandfileExit shfname exc hook]
          in (case leave_with (fst (fst body)) hook of
                Fallthrough \<Rightarrow> (if ret \<noteq> 0 then Return False else Fallthrough, tr)
              | Return b \<Rightarrow> (Return b, tr)
              | Raise e \<Rightarrow> (Raise e, tr))))))"

text \<open>
  Lines 45 to 101, the block of \<^verbatim>\<open>with spark_schroot(...)\<close>:
  \<^verbatim>\<open>
  chroot_upgrade(chroot, jlog)
  ret = chroot_run_logged(chroot, jlog,
      ['apt-get', 'install', '-y', 'git', 'ca-certificates'], user='root')
  if ret:
      return False
  ret = chroot_run_logged(chroot, jlog,
      ['apt-get', 'install', '-y', 'live-build'], user='root')
  if ret:
      return False
  ...
  \<close>
\<close>

definition install_git :: "string list" where
  "install_git = [''apt-get'', ''install'', ''-y'', ''git'', ''ca-certificates'']"

definition install_live_build :: "string list" where
  "install_live_build = [''apt-get'', ''install'', ''-y'', ''live-build'']"

definition run_body ::
  "provider \<Rightarrow> joblog \<Rightarrow> 'w iso_builder \<Rightarrow> chroot \<Rightarrow> string \<Rightarrow> string
     \<Rightarrow> flow \<times> event list" where
  "run_body P jlog self chroot wsdir results_dir =
     (let u = chroot_upgrade P chroot;
          tr = [ChrootUpgrade chroot u]
      in case u of
           Inl e \<Rightarrow> (Raise e, tr)
         | Inr discarded \<Rightarrow>
        (let r = chroot_run_logged P chroot install_git ''root'';
             tr = tr @ [ChrootRunLogged chroot install_git ''root'' r]
         in (case r of
               Inl e \<Rightarrow> (Raise e, tr)
             | Inr ret \<Rightarrow>
                 if ret \<noteq> 0 then (Return False, tr)
                 else
            (let r = chroot_run_logged P chroot install_live_build ''root'';
                 tr = tr @ [ChrootRunLogged chroot install_live_build ''root'' r]
             in (case r of
                   Inl e \<Rightarrow> (Raise e, tr)
                 | Inr ret \<Rightarrow>
                     if ret \<noteq> 0 then (Return False, tr)
                     else
                (let build = run_build P jlog self chroot wsdir results_dir ret
                 in (fst build, tr @ snd build)))))))"

text \<open>
  \<^verbatim>\<open>
  def run(self, jlog):
      with spark_schroot(self._chroot_name, jlog.job_id) as (chroot, wsdir, results_dir):
          ...
      return True
  \<close>
  Reading \<^verbatim>\<open>self._chroot_name\<close> raises \<^verbatim>\<open>AttributeError\<close> on an instance on which no
  \<^verbatim>\<open>set_job\<close> has succeeded.  When entering the context manager raises, there is no
  sandbox and no exit hook runs.  When the block raised and the exit hook swallowed the
  exception, execution reaches \<^verbatim>\<open>return True\<close>.
\<close>

definition run :: "provider \<Rightarrow> joblog \<Rightarrow> 'w iso_builder \<Rightarrow> (pyerr + bool) \<times> event list" where
  "run P jlog self =
     (case chroot_name self of
        None \<Rightarrow> (Inl AttributeError, [])
      | Some name \<Rightarrow>
     (let a = spark_schroot P name (job_id jlog);
          tr = [SparkSchroot name (job_id jlog) a]
      in (case a of
            Inl e \<Rightarrow> (Inl e, tr)
          | Inr (chroot, wsdir, results_dir) \<Rightarrow>
         (let body = run_body P jlog self chroot wsdir results_dir;
              exc = in_flight (fst body);
              hook = schroot_exit P chroot exc;
              tr = tr @ snd body @ [SchrootExit chroot exc hook]
          in (case leave_with (fst body) hook of
                Fallthrough \<Rightarrow> (Inr True, tr)
              | Return b \<Rightarrow> (Inr b, tr)
              | Raise e \<Rightarrow> (Inl e, tr))))))"

section \<open>Reading a trace; a simulated provider\<close>

text \<open>The release of the sandbox is the exit hook of \<^verbatim>\<open>spark_schroot\<close>.\<close>

fun is_release :: "event \<Rightarrow> bool" where
  "is_release (SchrootExit c exc hook) = True"
| "is_release e = False"

text \<open>
  A provider for concrete runs: the sandbox is \<^verbatim>\<open>/srv/ws\<close> and \<^verbatim>\<open>/srv/results\<close>, the
  upgrade returns \<open>up\<close>, a command reports \<open>status argv\<close>, nothing raises and the exit
  hooks return \<^verbatim>\<open>False\<close>.
\<close>

definition simulated :: "bool \<Rightarrow> (string list \<Rightarrow> int) \<Rightarrow> provider" where
  "simulated up status =
     \<lparr>spark_schroot = (\<lambda>name jid. Inr (name @ '':'' @ jid, ''/srv/ws'', ''/srv/results'')),
      chroot_upgrade = (\<lambda>chroot. Inr up),
      chroot_run_logged = (\<lambda>chroot argv user. Inr (status argv)),
      make_commandfile = (\<lambda>jid commands. Inr (''/tmp/'' @ jid @ ''.sh'')),
      chroot_copy = (\<lambda>chroot local remote. Inr ()),
      schroot_exit = (\<lambda>chroot exc. Inr False),
      commandfile_exit = (\<lambda>shfname exc. Inr False)\<rparr>"

fun is_acquire :: "event \<Rightarrow> bool" where
  "is_acquire (SparkSchroot name jid a) = True"
| "is_acquire e = False"

text \<open>A line of the script is a move when it starts with \<^verbatim>\<open>mv\<close> and a blank, and a
  forced move when it starts with \<^verbatim>\<open>mv -f\<close> and a blank.\<close>

definition is_move :: "string \<Rightarrow> bool" where
  "is_move c = (take 3 c = ''mv '')"

definition is_forced :: "string \<Rightarrow> bool" where
  "is_forced c = (take 6 c = ''mv -f '')"

text \<open>A job for concrete runs, and the instance after \<^verbatim>\<open>set_job\<close> has accepted it.\<close>

definition stable_amd64 :: job where
  "stable_amd64 =
     \<lparr>suite = PyNone, architecture = PyStr ''amd64'',
      data = Mapping [(''suite'', PyStr ''stable''),
                      (''liveBuildGit'', PyStr ''https://example.org/lb.git''),
                      (''flavor'', PyStr ''minimal'')]\<rparr>"

definition configured :: "string iso_builder" where
  "configured = snd (set_job stable_amd64 ''/srv/ws'' init)"

section \<open>Properties of \<^verbatim>\<open>set_job\<close>\<close>

text \<open>
  Claim C6.  \<^verbatim>\<open>set_job\<close> returns true exactly when \<^verbatim>\<open>data\<close> is a non-empty mapping, the
  \<^verbatim>\<open>suite\<close> read from that mapping is non-empty and the \<^verbatim>\<open>architecture\<close> read from the job
  is non-empty.  It then has stored the workspace and the mapping, and the chroot name is
  the suite and the architecture joined by a hyphen.
\<close>

theorem set_job_true_iff:
  "(fst (set_job j w self) = Inr True \<longleftrightarrow>
      (\<exists>d. data j = Mapping d \<and> d \<noteq> [] \<and> truthy (dict_get d ''suite'')
           \<and> truthy (architecture j)))
   \<and> (\<forall>d. data j = Mapping d \<and> fst (set_job j w self) = Inr True \<longrightarrow>
         snd (set_job j w self) =
           \<lparr>workspace = Some w, job_data = Some (Mapping d),
            chroot_name = Some (py_str (dict_get d ''suite'') @ ''-'' @ py_str (architecture j))\<rparr>)"
  by (cases "data j") (auto simp: set_job_def Let_def)

text \<open>For \<^verbatim>\<open>suite="stable"\<close> and \<^verbatim>\<open>architecture="amd64"\<close> the name is \<^verbatim>\<open>stable-amd64\<close>.\<close>

theorem set_job_true_iff_witness:
  "fst (set_job \<lparr>suite = PyNone, architecture = PyStr ''amd64'',
                 data = Mapping [(''suite'', PyStr ''stable'')]\<rparr> ''/srv/ws'' init) = Inr True
   \<and> chroot_name (snd (set_job \<lparr>suite = PyNone, architecture = PyStr ''amd64'',
                 data = Mapping [(''suite'', PyStr ''stable'')]\<rparr> ''/srv/ws'' init))
       = Some ''stable-amd64''"
  using set_job_true_iff [of "\<lparr>suite = PyNone, architecture = PyStr ''amd64'',
                 data = Mapping [(''suite'', PyStr ''stable'')]\<rparr>" "''/srv/ws''" init]
  by (simp add: dict_get_def)

text \<open>
  Claim C2, as stated: a job that fails validation leaves the instance unchanged.  The
  source assigns \<^verbatim>\<open>self._workspace\<close> and \<^verbatim>\<open>self._job_data\<close> before it validates: for a job
  without \<^verbatim>\<open>architecture\<close> the call returns false and both are stored.
\<close>

theorem set_job_failure_counterexample:
  "fst (set_job \<lparr>suite = PyStr ''stable'', architecture = PyNone,
                  data = Mapping [(''suite'', PyStr ''stable'')]\<rparr> ''/srv/ws'' init) = Inr False
   \<and> snd (set_job \<lparr>suite = PyStr ''stable'', architecture = PyNone,
                  data = Mapping [(''suite'', PyStr ''stable'')]\<rparr> ''/srv/ws'' init)
       = \<lparr>workspace = Some ''/srv/ws'',
          job_data = Some (Mapping [(''suite'', PyStr ''stable'')]),
          chroot_name = None\<rparr>
   \<and> snd (set_job \<lparr>suite = PyStr ''stable'', architecture = PyNone,
                  data = Mapping [(''suite'', PyStr ''stable'')]\<rparr> ''/srv/ws'' init)
       \<noteq> (init :: string iso_builder)"
  by (simp add: set_job_def dict_get_def init_def)

text \<open>
  Claim C2, amended.  When \<^verbatim>\<open>data\<close> is absent or empty, or \<^verbatim>\<open>data\<close> is a mapping and the
  suite or the architecture is missing or empty, \<^verbatim>\<open>set_job\<close> returns false and the chroot
  name is what it was; the workspace and \<^verbatim>\<open>job.get('data')\<close> are stored all the same.
\<close>

theorem set_job_failure:
  assumes "\<not> field_truthy (data j)
           \<or> (\<exists>d. data j = Mapping d
                    \<and> (\<not> truthy (dict_get d ''suite'') \<or> \<not> truthy (architecture j)))"
  shows "set_job j w self = (Inr False, self\<lparr>workspace := Some w, job_data := Some (data j)\<rparr>)
         \<and> chroot_name (snd (set_job j w self)) = chroot_name self"
  using assms by (cases "data j") (auto simp: set_job_def Let_def)

theorem set_job_failure_witness:
  "set_job \<lparr>suite = PyStr ''stable'', architecture = PyNone,
            data = Mapping [(''suite'', PyStr ''stable'')]\<rparr> ''/srv/ws''
       \<lparr>workspace = None, job_data = None, chroot_name = Some ''old-i386''\<rparr>
   = (Inr False, \<lparr>workspace = Some ''/srv/ws'',
                  job_data = Some (Mapping [(''suite'', PyStr ''stable'')]),
                  chroot_name = Some ''old-i386''\<rparr>)"
  using set_job_failure [of "\<lparr>suite = PyStr ''stable'', architecture = PyNone,
            data = Mapping [(''suite'', PyStr ''stable'')]\<rparr>" "''/srv/ws''"
       "\<lparr>workspace = None, job_data = None, chroot_name = Some ''old-i386''\<rparr>"]
  by simp

text \<open>
  Claim C9, as stated: a descriptor with non-empty top-level \<^verbatim>\<open>suite\<close> and
  \<^verbatim>\<open>architecture\<close> and a \<^verbatim>\<open>data\<close> mapping holding \<^verbatim>\<open>liveBuildGit\<close> is accepted.
  \<^verbatim>\<open>set_job\<close> reads the suite from \<^verbatim>\<open>data\<close>, so such a descriptor is refused.
\<close>

theorem set_job_top_level_suite_counterexample:
  "fst (set_job \<lparr>suite = PyStr ''stable'', architecture = PyStr ''amd64'',
                  data = Mapping [(''liveBuildGit'', PyStr ''https://example.org/lb.git'')]\<rparr>
          ''/srv/ws'' init) = Inr False"
  by (simp add: set_job_def dict_get_def)

text \<open>
  Claim C9, amended.  A descriptor whose top-level \<^verbatim>\<open>architecture\<close> is a non-empty string
  and whose \<^verbatim>\<open>data\<close> mapping holds a non-empty string \<^verbatim>\<open>suite\<close> is accepted, whatever its
  top-level \<^verbatim>\<open>suite\<close> and whether or not \<^verbatim>\<open>data\<close> holds \<^verbatim>\<open>liveBuildGit\<close>.
\<close>

theorem set_job_accepts_suite_in_data:
  assumes "architecture j = PyStr arch" and "arch \<noteq> []"
    and "data j = Mapping d" and "dict_get d ''suite'' = PyStr s" and "s \<noteq> []"
  shows "set_job j w self =
           (Inr True, self\<lparr>workspace := Some w, job_data := Some (Mapping d),
                           chroot_name := Some (s @ ''-'' @ arch)\<rparr>)"
proof -
  from assms(4) have "d \<noteq> []"
    by (auto simp: dict_get_def)
  with assms show ?thesis
    by (simp add: set_job_def)
qed

theorem set_job_accepts_suite_in_data_witness:
  "set_job \<lparr>suite = PyNone, architecture = PyStr ''amd64'',
            data = Mapping [(''suite'', PyStr ''stable''),
                            (''liveBuildGit'', PyStr ''https://example.org/lb.git'')]\<rparr>
       ''/srv/ws'' init
   = (Inr True, \<lparr>workspace = Some ''/srv/ws'',
                 job_data = Some (Mapping [(''suite'', PyStr ''stable''),
                            (''liveBuildGit'', PyStr ''https://example.org/lb.git'')]),
                 chroot_name = Some ''stable-amd64''\<rparr>)"
  using set_job_accepts_suite_in_data [of "\<lparr>suite = PyNone, architecture = PyStr ''amd64'',
            data = Mapping [(''suite'', PyStr ''stable''),
                            (''liveBuildGit'', PyStr ''https://example.org/lb.git'')]\<rparr>"
          "''amd64''" "[(''suite'', PyStr ''stable''),
                            (''liveBuildGit'', PyStr ''https://example.org/lb.git'')]"
          "''stable''" "''/srv/ws''" init]
  by (simp add: dict_get_def init_def)

section \<open>Properties of the command script\<close>

lemma flavor_export_append:
  \<open>flavor_export commands flavor = Inr cs \<Longrightarrow>
     (\<not> truthy flavor \<and> cs = commands)
     \<or> (truthy flavor \<and> (\<exists>q. shlex_quote flavor = Inr q
            \<and> cs = commands @ [''export FLAVOR="'' @ q @ ''"'']))\<close>
  by (auto simp: flavor_export_def append_def split: if_splits sum.splits)

lemma build_commands_script:
  assumes "build_commands self wsdir results_dir = Inr commands"
  shows \<open>\<exists>d url flavor_lines.
           job_data self = Some (Mapping d)
         \<and> shlex_quote (dict_get d ''liveBuildGit'') = Inr url
         \<and> (if truthy (dict_get d ''flavor'')
            then \<exists>q. shlex_quote (dict_get d ''flavor'') = Inr q
                   \<and> flavor_lines = [''export FLAVOR="'' @ q @ ''"'']
            else flavor_lines = [])
         \<and> commands =
             [''export DEBIAN_FRONTEND=noninteractive'',
              ''cd '' @ wsdir,
              ''git clone --depth=2 '' @ url @ '' '' @ wsdir @ ''/lb'',
              ''cd ./lb'']
             @ flavor_lines
             @ [''lb config'',
                ''lb build'',
                ''b2sum *.iso *.contents *.zsync *.packages > checksums.b2sum'',
                ''sha256sum *.iso *.contents *.zsync *.packages > checksums.sha256sum'',
                ''mv *.iso '' @ results_dir @ ''/'',
                ''mv -f *.zsync '' @ results_dir @ ''/'',
                ''mv -f *.contents '' @ results_dir @ ''/'',
                ''mv -f *.files '' @ results_dir @ ''/'',
                ''mv -f *.packages '' @ results_dir @ ''/'',
                ''mv -f *.b2sum '' @ results_dir @ ''/'',
                ''mv -f *.sha256sum '' @ results_dir @ ''/'']\<close>
proof -
  from assms obtain d where d: "job_data self = Some (Mapping d)"
    by (auto simp: build_commands_def job_data_get_def Let_def
             split: option.splits pyfield.splits sum.splits)
  from assms d obtain url where url: "shlex_quote (dict_get d ''liveBuildGit'') = Inr url"
    by (auto simp: build_commands_def job_data_get_def Let_def split: sum.splits)
  from assms d url obtain cs where
    cs: "flavor_export [''export DEBIAN_FRONTEND=noninteractive'', ''cd '' @ wsdir,
              ''git clone --depth=2 '' @ url @ '' '' @ wsdir @ ''/lb'', ''cd ./lb'']
            (dict_get d ''flavor'') = Inr cs"
    and commands: "commands = save_artifacts (cs @ [''lb config'', ''lb build'',
                ''b2sum *.iso *.contents *.zsync *.packages > checksums.b2sum'',
                ''sha256sum *.iso *.contents *.zsync *.packages > checksums.sha256sum''])
              results_dir"
    by (auto simp: build_commands_def job_data_get_def append_def Let_def split: sum.splits)
  from flavor_export_append [OF cs] d url commands show ?thesis
    by (auto simp: save_artifacts_def append_def Let_def)
qed

text \<open>The script handed to \<^verbatim>\<open>make_commandfile\<close> is the one \<open>build_commands\<close> returned,
  for the directories the sandbox was acquired with.\<close>

lemma run_commandfile_no_make:
  "MakeCommandfile j cs r \<notin> set (snd (run_commandfile P c f ret))"
  by (simp add: run_commandfile_def Let_def split: sum.splits)

lemma run_build_make:
  "MakeCommandfile j cs r \<in> set (snd (run_build P jlog self c ws rd ret))
     \<Longrightarrow> build_commands self ws rd = Inr cs"
  by (auto simp: run_build_def run_commandfile_no_make Let_def
           split: sum.splits flow.splits if_splits)

lemma run_body_make:
  "MakeCommandfile j cs r \<in> set (snd (run_body P jlog self c ws rd))
     \<Longrightarrow> build_commands self ws rd = Inr cs"
  by (auto simp: run_body_def Let_def split: sum.splits if_splits dest: run_build_make)

lemma run_make:
  assumes "MakeCommandfile j cs r \<in> set (snd (run P jlog self))"
  shows "\<exists>name c ws rd. chroot_name self = Some name
           \<and> spark_schroot P name (job_id jlog) = Inr (c, ws, rd)
           \<and> build_commands self ws rd = Inr cs"
  using assms
  by (auto simp: run_def Let_def
           split: option.splits sum.splits flow.splits dest: run_body_make)

text \<open>The concrete job, configured and run.\<close>

lemma configured_eq:
  "configured = \<lparr>workspace = Some ''/srv/ws'',
       job_data = Some (Mapping [(''suite'', PyStr ''stable''),
                      (''liveBuildGit'', PyStr ''https://example.org/lb.git''),
                      (''flavor'', PyStr ''minimal'')]),
       chroot_name = Some ''stable-amd64''\<rparr>"
  by (simp add: configured_def stable_amd64_def set_job_def dict_get_def init_def)

lemma chroot_name_configured: "chroot_name configured = Some ''stable-amd64''"
  by (simp add: configured_eq)

lemma quote_url:
  "shlex_quote (PyStr ''https://example.org/lb.git'') = Inr ''https://example.org/lb.git''"
  by (simp add: shlex_quote_def find_unsafe_def is_safe_def safe_chars_def)

lemma quote_minimal: "shlex_quote (PyStr ''minimal'') = Inr ''minimal''"
  by (simp add: shlex_quote_def find_unsafe_def is_safe_def safe_chars_def)

lemma build_configured:
  \<open>build_commands configured ''/srv/ws'' ''/srv/results'' =
     Inr [''export DEBIAN_FRONTEND=noninteractive'',
          ''cd /srv/ws'',
          ''git clone --depth=2 https://example.org/lb.git /srv/ws/lb'',
          ''cd ./lb'',
          ''export FLAVOR="minimal"'',
          ''lb config'',
          ''lb build'',
          ''b2sum *.iso *.contents *.zsync *.packages > checksums.b2sum'',
          ''sha256sum *.iso *.contents *.zsync *.packages > checksums.sha256sum'',
          ''mv *.iso /srv/results/'',
          ''mv -f *.zsync /srv/results/'',
          ''mv -f *.contents /srv/results/'',
          ''mv -f *.files /srv/results/'',
          ''mv -f *.packages /srv/results/'',
          ''mv -f *.b2sum /srv/results/'',
          ''mv -f *.sha256sum /srv/results/'']\<close>
  by (simp add: build_commands_def configured_eq job_data_get_def dict_get_def quote_url
        quote_minimal flavor_export_def save_artifacts_def append_def Let_def)

lemma run_configured:
  "run (simulated up (\<lambda>argv. 0)) \<lparr>job_id = ''7''\<rparr> configured =
     (Inr True,
      [SparkSchroot ''stable-amd64'' ''7''
         (Inr (''stable-amd64:7'', ''/srv/ws'', ''/srv/results'')),
       ChrootUpgrade ''stable-amd64:7'' (Inr up),
       ChrootRunLogged ''stable-amd64:7'' install_git ''root'' (Inr 0),
       ChrootRunLogged ''stable-amd64:7'' install_live_build ''root'' (Inr 0),
       MakeCommandfile ''7'' (projr (build_commands configured ''/srv/ws'' ''/srv/results''))
         (Inr ''/tmp/7.sh''),
       ChrootCopy ''stable-amd64:7'' ''/tmp/7.sh'' ''/tmp/7.sh'' (Inr ()),
       ChrootRunLogged ''stable-amd64:7'' [''sh'', ''-e'', ''/tmp/7.sh''] ''root'' (Inr 0),
       CommandfileExit ''/tmp/7.sh'' None (Inr False),
       SchrootExit ''stable-amd64:7'' None (Inr False)])"
  by (simp add: run_def run_body_def run_build_def run_commandfile_def simulated_def build_configured chroot_name_configured Let_def)

text \<open>When the sandbox is there and both installations report zero, the script that
  \<open>build_commands\<close> returns is handed to \<^verbatim>\<open>make_commandfile\<close>.\<close>

lemma run_reaches_script:
  assumes "chroot_name self = Some name"
    and "spark_schroot P name (job_id jlog) = Inr (c, ws, rd)"
    and "chroot_upgrade P c = Inr u"
    and "chroot_run_logged P c install_git ''root'' = Inr 0"
    and "chroot_run_logged P c install_live_build ''root'' = Inr 0"
    and "build_commands self ws rd = Inr commands"
  shows "MakeCommandfile (job_id jlog) commands (make_commandfile P (job_id jlog) commands)
           \<in> set (snd (run P jlog self))"
proof -
  from assms(6) have "MakeCommandfile (job_id jlog) commands
                        (make_commandfile P (job_id jlog) commands)
                      \<in> set (snd (run_build P jlog self c ws rd 0))"
    by (simp add: run_build_def Let_def split: sum.splits flow.splits)
  with assms(3-5) have "MakeCommandfile (job_id jlog) commands
                        (make_commandfile P (job_id jlog) commands)
                      \<in> set (snd (run_body P jlog self c ws rd))"
    by (simp add: run_body_def Let_def)
  with assms(1,2) show ?thesis
    by (simp add: run_def Let_def split: flow.splits)
qed

lemma build_commands_total:
  assumes "job_data self = Some (Mapping d)"
    and "shlex_quote (dict_get d ''liveBuildGit'') = Inr url"
    and "shlex_quote (dict_get d ''flavor'') = Inr q"
  shows "\<exists>commands. build_commands self wsdir results_dir = Inr commands"
  using assms
  by (simp add: build_commands_def job_data_get_def flavor_export_def Let_def)

text \<open>
  Claim C1.  Whenever \<^verbatim>\<open>run\<close> hands a script to \<^verbatim>\<open>make_commandfile\<close>, the script is this
  sequence and nothing else: the export of \<^verbatim>\<open>DEBIAN_FRONTEND=noninteractive\<close>; \<^verbatim>\<open>cd\<close> to
  the work directory; \<^verbatim>\<open>git clone --depth=2\<close> of the shell-quoted \<^verbatim>\<open>liveBuildGit\<close> into
  \<^verbatim>\<open>lb\<close> under the work directory; \<^verbatim>\<open>cd ./lb\<close>; the flavor export when the flavor is
  non-empty; \<^verbatim>\<open>lb config\<close>; \<^verbatim>\<open>lb build\<close>; the \<^verbatim>\<open>b2sum\<close> and the \<^verbatim>\<open>sha256sum\<close> manifests
  over \<^verbatim>\<open>*.iso *.contents *.zsync *.packages\<close>; and the seven moves into the results
  directory, in the order iso, zsync, contents, files, packages, b2sum, sha256sum.
  And \<^verbatim>\<open>run\<close> does hand over a script when the sandbox is acquired, the upgrade returns,
  both installations report zero and the two values it quotes can be quoted (each is a
  string or false).
\<close>

theorem run_command_script:
  \<open>(MakeCommandfile jid commands r \<in> set (snd (run P jlog self)) \<longrightarrow>
      (\<exists>name chroot wsdir results_dir d url flavor_lines.
           chroot_name self = Some name
         \<and> spark_schroot P name (job_id jlog) = Inr (chroot, wsdir, results_dir)
         \<and> job_data self = Some (Mapping d)
         \<and> shlex_quote (dict_get d ''liveBuildGit'') = Inr url
         \<and> (if truthy (dict_get d ''flavor'')
            then \<exists>q. shlex_quote (dict_get d ''flavor'') = Inr q
                   \<and> flavor_lines = [''export FLAVOR="'' @ q @ ''"'']
            else flavor_lines = [])
         \<and> commands =
             [''export DEBIAN_FRONTEND=noninteractive'',
              ''cd '' @ wsdir,
              ''git clone --depth=2 '' @ url @ '' '' @ wsdir @ ''/lb'',
              ''cd ./lb'']
             @ flavor_lines
             @ [''lb config'',
                ''lb build'',
                ''b2sum *.iso *.contents *.zsync *.packages > checksums.b2sum'',
                ''sha256sum *.iso *.contents *.zsync *.packages > checksums.sha256sum'',
                ''mv *.iso '' @ results_dir @ ''/'',
                ''mv -f *.zsync '' @ results_dir @ ''/'',
                ''mv -f *.contents '' @ results_dir @ ''/'',
                ''mv -f *.files '' @ results_dir @ ''/'',
                ''mv -f *.packages '' @ results_dir @ ''/'',
                ''mv -f *.b2sum '' @ results_dir @ ''/'',
                ''mv -f *.sha256sum '' @ results_dir @ ''/'']))
   \<and> (chroot_name self = Some name
      \<and> spark_schroot P name (job_id jlog) = Inr (chroot, wsdir, results_dir)
      \<and> chroot_upgrade P chroot = Inr u
      \<and> chroot_run_logged P chroot install_git ''root'' = Inr 0
      \<and> chroot_run_logged P chroot install_live_build ''root'' = Inr 0
      \<and> job_data self = Some (Mapping d)
      \<and> shlex_quote (dict_get d ''liveBuildGit'') = Inr url
      \<and> shlex_quote (dict_get d ''flavor'') = Inr q
      \<longrightarrow> (\<exists>commands r. MakeCommandfile (job_id jlog) commands r
                          \<in> set (snd (run P jlog self))))\<close>
proof (intro conjI impI)
  assume m: "MakeCommandfile jid commands r \<in> set (snd (run P jlog self))"
  from run_make [OF m] obtain name c ws rd where
    "chroot_name self = Some name"
    "spark_schroot P name (job_id jlog) = Inr (c, ws, rd)"
    "build_commands self ws rd = Inr commands"
    by blast
  with build_commands_script [of self ws rd commands]
  show \<open>\<exists>name chroot wsdir results_dir d url flavor_lines.
           chroot_name self = Some name
         \<and> spark_schroot P name (job_id jlog) = Inr (chroot, wsdir, results_dir)
         \<and> job_data self = Some (Mapping d)
         \<and> shlex_quote (dict_get d ''liveBuildGit'') = Inr url
         \<and> (if truthy (dict_get d ''flavor'')
            then \<exists>q. shlex_quote (dict_get d ''flavor'') = Inr q
                   \<and> flavor_lines = [''export FLAVOR="'' @ q @ ''"'']
            else flavor_lines = [])
         \<and> commands =
             [''export DEBIAN_FRONTEND=noninteractive'',
              ''cd '' @ wsdir,
              ''git clone --depth=2 '' @ url @ '' '' @ wsdir @ ''/lb'',
              ''cd ./lb'']
             @ flavor_lines
             @ [''lb config'',
                ''lb build'',
                ''b2sum *.iso *.contents *.zsync *.packages > checksums.b2sum'',
                ''sha256sum *.iso *.contents *.zsync *.packages > checksums.sha256sum'',
                ''mv *.iso '' @ results_dir @ ''/'',
                ''mv -f *.zsync '' @ results_dir @ ''/'',
                ''mv -f *.contents '' @ results_dir @ ''/'',
                ''mv -f *.files '' @ results_dir @ ''/'',
                ''mv -f *.packages '' @ results_dir @ ''/'',
                ''mv -f *.b2sum '' @ results_dir @ ''/'',
                ''mv -f *.sha256sum '' @ results_dir @ ''/'']\<close>
    by blast
next
  assume a: \<open>chroot_name self = Some name
      \<and> spark_schroot P name (job_id jlog) = Inr (chroot, wsdir, results_dir)
      \<and> chroot_upgrade P chroot = Inr u
      \<and> chroot_run_logged P chroot install_git ''root'' = Inr 0
      \<and> chroot_run_logged P chroot install_live_build ''root'' = Inr 0
      \<and> job_data self = Some (Mapping d)
      \<and> shlex_quote (dict_get d ''liveBuildGit'') = Inr url
      \<and> shlex_quote (dict_get d ''flavor'') = Inr q\<close>
  then obtain cs where "build_commands self wsdir results_dir = Inr cs"
    using build_commands_total [of self d url q wsdir results_dir] by blast
  with a have "MakeCommandfile (job_id jlog) cs (make_commandfile P (job_id jlog) cs)
                 \<in> set (snd (run P jlog self))"
    by (intro run_reaches_script [of self name P jlog chroot wsdir results_dir u]) simp_all
  then show "\<exists>commands r. MakeCommandfile (job_id jlog) commands r
                          \<in> set (snd (run P jlog self))"
    by blast
qed

theorem run_command_script_witness:
  \<open>MakeCommandfile ''7''
      [''export DEBIAN_FRONTEND=noninteractive'',
       ''cd /srv/ws'',
       ''git clone --depth=2 https://example.org/lb.git /srv/ws/lb'',
       ''cd ./lb'',
       ''export FLAVOR="minimal"'',
       ''lb config'',
       ''lb build'',
       ''b2sum *.iso *.contents *.zsync *.packages > checksums.b2sum'',
       ''sha256sum *.iso *.contents *.zsync *.packages > checksums.sha256sum'',
       ''mv *.iso /srv/results/'',
       ''mv -f *.zsync /srv/results/'',
       ''mv -f *.contents /srv/results/'',
       ''mv -f *.files /srv/results/'',
       ''mv -f *.packages /srv/results/'',
       ''mv -f *.b2sum /srv/results/'',
       ''mv -f *.sha256sum /srv/results/'']
      (Inr ''/tmp/7.sh'')
     \<in> set (snd (run (simulated True (\<lambda>argv. 0)) \<lparr>job_id = ''7''\<rparr> configured))
   \<and> (\<exists>name chroot wsdir results_dir d url flavor_lines.
           chroot_name configured = Some name
         \<and> spark_schroot (simulated True (\<lambda>argv. 0)) name (job_id \<lparr>job_id = ''7''\<rparr>) = Inr (chroot, wsdir, results_dir)
         \<and> job_data configured = Some (Mapping d)
         \<and> shlex_quote (dict_get d ''liveBuildGit'') = Inr url
         \<and> (if truthy (dict_get d ''flavor'')
            then \<exists>q. shlex_quote (dict_get d ''flavor'') = Inr q
                   \<and> flavor_lines = [''export FLAVOR="'' @ q @ ''"'']
            else flavor_lines = [])
         \<and> [''export DEBIAN_FRONTEND=noninteractive'',
       ''cd /srv/ws'',
       ''git clone --depth=2 https://example.org/lb.git /srv/ws/lb'',
       ''cd ./lb'',
       ''export FLAVOR="minimal"'',
       ''lb config'',
       ''lb build'',
       ''b2sum *.iso *.contents *.zsync *.packages > checksums.b2sum'',
       ''sha256sum *.iso *.contents *.zsync *.packages > checksums.sha256sum'',
       ''mv *.iso /srv/results/'',
       ''mv -f *.zsync /srv/results/'',
       ''mv -f *.contents /srv/results/'',
       ''mv -f *.files /srv/results/'',
       ''mv -f *.packages /srv/results/'',
       ''mv -f *.b2sum /srv/results/'',
       ''mv -f *.sha256sum /srv/results/''] =
             [''export DEBIAN_FRONTEND=noninteractive'',
              ''cd '' @ wsdir,
              ''git clone --depth=2 '' @ url @ '' '' @ wsdir @ ''/lb'',
              ''cd ./lb'']
             @ flavor_lines
             @ [''lb config'',
                ''lb build'',
                ''b2sum *.iso *.contents *.zsync *.packages > checksums.b2sum'',
                ''sha256sum *.iso *.contents *.zsync *.packages > checksums.sha256sum'',
                ''mv *.iso '' @ results_dir @ ''/'',
                ''mv -f *.zsync '' @ results_dir @ ''/'',
                ''mv -f *.contents '' @ results_dir @ ''/'',
                ''mv -f *.files '' @ results_dir @ ''/'',
                ''mv -f *.packages '' @ results_dir @ ''/'',
                ''mv -f *.b2sum '' @ results_dir @ ''/'',
                ''mv -f *.sha256sum '' @ results_dir @ ''/''])
   \<and> (chroot_name configured = Some ''stable-amd64''
      \<and> spark_schroot (simulated True (\<lambda>argv. 0)) ''stable-amd64'' (job_id \<lparr>job_id = ''7''\<rparr>)
          = Inr (''stable-amd64:7'', ''/srv/ws'', ''/srv/results'')
      \<and> chroot_upgrade (simulated True (\<lambda>argv. 0)) ''stable-amd64:7'' = Inr True
      \<and> chroot_run_logged (simulated True (\<lambda>argv. 0)) ''stable-amd64:7'' install_git ''root'' = Inr 0
      \<and> chroot_run_logged (simulated True (\<lambda>argv. 0)) ''stable-amd64:7'' install_live_build ''root'' = Inr 0
      \<and> job_data configured = Some (Mapping [(''suite'', PyStr ''stable''), (''liveBuildGit'', PyStr ''https://example.org/lb.git''), (''flavor'', PyStr ''minimal'')])
      \<and> shlex_quote (dict_get [(''suite'', PyStr ''stable''), (''liveBuildGit'', PyStr ''https://example.org/lb.git''), (''flavor'', PyStr ''minimal'')] ''liveBuildGit'') = Inr ''https://example.org/lb.git''
      \<and> shlex_quote (dict_get [(''suite'', PyStr ''stable''), (''liveBuildGit'', PyStr ''https://example.org/lb.git''), (''flavor'', PyStr ''minimal'')] ''flavor'') = Inr ''minimal'')
   \<and> (\<exists>commands r. MakeCommandfile (job_id \<lparr>job_id = ''7''\<rparr>) commands r
                          \<in> set (snd (run (simulated True (\<lambda>argv. 0)) \<lparr>job_id = ''7''\<rparr> configured)))\<close>
proof -
  have m: \<open>MakeCommandfile ''7''
      [''export DEBIAN_FRONTEND=noninteractive'',
       ''cd /srv/ws'',
       ''git clone --depth=2 https://example.org/lb.git /srv/ws/lb'',
       ''cd ./lb'',
       ''export FLAVOR="minimal"'',
       ''lb config'',
       ''lb build'',
       ''b2sum *.iso *.contents *.zsync *.packages > checksums.b2sum'',
       ''sha256sum *.iso *.contents *.zsync *.packages > checksums.sha256sum'',
       ''mv *.iso /srv/results/'',
       ''mv -f *.zsync /srv/results/'',
       ''mv -f *.contents /srv/results/'',
       ''mv -f *.files /srv/results/'',
       ''mv -f *.packages /srv/results/'',
       ''mv -f *.b2sum /srv/results/'',
       ''mv -f *.sha256sum /srv/results/'']
      (Inr ''/tmp/7.sh'')
     \<in> set (snd (run (simulated True (\<lambda>argv. 0)) \<lparr>job_id = ''7''\<rparr> configured))\<close>
    by (simp add: run_configured build_configured)
  have c: \<open>chroot_name configured = Some ''stable-amd64''
      \<and> spark_schroot (simulated True (\<lambda>argv. 0)) ''stable-amd64'' (job_id \<lparr>job_id = ''7''\<rparr>)
          = Inr (''stable-amd64:7'', ''/srv/ws'', ''/srv/results'')
      \<and> chroot_upgrade (simulated True (\<lambda>argv. 0)) ''stable-amd64:7'' = Inr True
      \<and> chroot_run_logged (simulated True (\<lambda>argv. 0)) ''stable-amd64:7'' install_git ''root'' = Inr 0
      \<and> chroot_run_logged (simulated True (\<lambda>argv. 0)) ''stable-amd64:7'' install_live_build ''root'' = Inr 0
      \<and> job_data configured = Some (Mapping [(''suite'', PyStr ''stable''), (''liveBuildGit'', PyStr ''https://example.org/lb.git''), (''flavor'', PyStr ''minimal'')])
      \<and> shlex_quote (dict_get [(''suite'', PyStr ''stable''), (''liveBuildGit'', PyStr ''https://example.org/lb.git''), (''flavor'', PyStr ''minimal'')] ''liveBuildGit'') = Inr ''https://example.org/lb.git''
      \<and> shlex_quote (dict_get [(''suite'', PyStr ''stable''), (''liveBuildGit'', PyStr ''https://example.org/lb.git''), (''flavor'', PyStr ''minimal'')] ''flavor'') = Inr ''minimal''\<close>
    by (simp add: chroot_name_configured quote_url quote_minimal dict_get_def)
      (simp add: simulated_def configured_eq)
  note t = run_command_script
    [where jid = "''7''" and r = "Inr ''/tmp/7.sh''" and P = "simulated True (\<lambda>argv. 0)"
       and jlog = "\<lparr>job_id = ''7''\<rparr>" and self = configured and name = "''stable-amd64''"
       and chroot = "''stable-amd64:7''" and wsdir = "''/srv/ws''"
       and results_dir = "''/srv/results''" and u = True
       and d = "[(''suite'', PyStr ''stable''), (''liveBuildGit'', PyStr ''https://example.org/lb.git''), (''flavor'', PyStr ''minimal'')]"
       and url = "''https://example.org/lb.git''" and q = "''minimal''"]
  show ?thesis
    by (rule conjI [OF m conjI [OF t [THEN conjunct1, THEN mp, OF m]
          conjI [OF c t [THEN conjunct2, THEN mp, OF c]]]])
qed

text \<open>
  Claim C8, the text of the script, which is what the code decides.  In every script
  handed to \<^verbatim>\<open>make_commandfile\<close> the move commands are these seven, in this order: the move
  of \<^verbatim>\<open>*.iso\<close> is a plain \<^verbatim>\<open>mv\<close>, and each of the six others (\<^verbatim>\<open>.zsync\<close>, \<^verbatim>\<open>.contents\<close>,
  \<^verbatim>\<open>.files\<close>, \<^verbatim>\<open>.packages\<close>, \<^verbatim>\<open>.b2sum\<close>, \<^verbatim>\<open>.sha256sum\<close>) carries the flag \<^verbatim>\<open>-f\<close>.
  The flag is all the script does for a class without files, and it is not a guard:
  \<^verbatim>\<open>-f\<close> makes \<^verbatim>\<open>mv\<close> overwrite without asking, a pattern that matches nothing reaches
  \<^verbatim>\<open>mv\<close> as it is written, \<^verbatim>\<open>mv\<close> fails on it with or without \<^verbatim>\<open>-f\<close>, and \<^verbatim>\<open>sh -e\<close> stops
  the script there.
\<close>

theorem move_commands_forced:
  assumes "MakeCommandfile jid commands r \<in> set (snd (run P jlog self))"
  shows "\<exists>name chroot wsdir results_dir.
           chroot_name self = Some name
         \<and> spark_schroot P name (job_id jlog) = Inr (chroot, wsdir, results_dir)
         \<and> filter is_move commands =
             [''mv *.iso '' @ results_dir @ ''/'',
              ''mv -f *.zsync '' @ results_dir @ ''/'',
              ''mv -f *.contents '' @ results_dir @ ''/'',
              ''mv -f *.files '' @ results_dir @ ''/'',
              ''mv -f *.packages '' @ results_dir @ ''/'',
              ''mv -f *.b2sum '' @ results_dir @ ''/'',
              ''mv -f *.sha256sum '' @ results_dir @ ''/'']
         \<and> map is_forced (filter is_move commands)
             = [False, True, True, True, True, True, True]"
proof -
  from run_make [OF assms] obtain name c ws rd where
    acq: "chroot_name self = Some name"
      "spark_schroot P name (job_id jlog) = Inr (c, ws, rd)"
    and "build_commands self ws rd = Inr commands"
    by blast
  from build_commands_script [OF this(3)] obtain url fl where
    fl: "fl = [] \<or> (\<exists>q. fl = [''export FLAVOR='' @ [CHR 0x22] @ q @ [CHR 0x22]])"
    and cs: "commands =
             [''export DEBIAN_FRONTEND=noninteractive'', ''cd '' @ ws,
              ''git clone --depth=2 '' @ url @ '' '' @ ws @ ''/lb'', ''cd ./lb'']
             @ fl
             @ [''lb config'', ''lb build'',
                ''b2sum *.iso *.contents *.zsync *.packages > checksums.b2sum'',
                ''sha256sum *.iso *.contents *.zsync *.packages > checksums.sha256sum'',
                ''mv *.iso '' @ rd @ ''/'',
                ''mv -f *.zsync '' @ rd @ ''/'',
                ''mv -f *.contents '' @ rd @ ''/'',
                ''mv -f *.files '' @ rd @ ''/'',
                ''mv -f *.packages '' @ rd @ ''/'',
                ''mv -f *.b2sum '' @ rd @ ''/'',
                ''mv -f *.sha256sum '' @ rd @ ''/'']"
    by (auto split: if_splits)
  from fl have nofl: "filter is_move fl = []"
    by (auto simp: is_move_def)
  have "filter is_move commands =
             [''mv *.iso '' @ rd @ ''/'',
              ''mv -f *.zsync '' @ rd @ ''/'',
              ''mv -f *.contents '' @ rd @ ''/'',
              ''mv -f *.files '' @ rd @ ''/'',
              ''mv -f *.packages '' @ rd @ ''/'',
              ''mv -f *.b2sum '' @ rd @ ''/'',
              ''mv -f *.sha256sum '' @ rd @ ''/'']"
    unfolding cs by (simp add: nofl) (simp add: is_move_def)
  moreover from this have
    "map is_forced (filter is_move commands) = [False, True, True, True, True, True, True]"
    by (simp add: is_forced_def)
  ultimately show ?thesis
    using acq by (intro exI conjI)
qed

theorem move_commands_forced_witness:
  "(\<exists>commands. MakeCommandfile ''7'' commands (Inr ''/tmp/7.sh'')
       \<in> set (snd (run (simulated True (\<lambda>argv. 0)) \<lparr>job_id = ''7''\<rparr> configured))
     \<and> filter is_move commands =
         [''mv *.iso /srv/results/'',
          ''mv -f *.zsync /srv/results/'',
          ''mv -f *.contents /srv/results/'',
          ''mv -f *.files /srv/results/'',
          ''mv -f *.packages /srv/results/'',
          ''mv -f *.b2sum /srv/results/'',
          ''mv -f *.sha256sum /srv/results/'']
     \<and> map is_forced (filter is_move commands)
         = [False, True, True, True, True, True, True])"
proof -
  let ?P = "simulated True (\<lambda>argv. 0)"
  let ?cs = "projr (build_commands configured ''/srv/ws'' ''/srv/results'')"
  have m: "MakeCommandfile ''7'' ?cs (Inr ''/tmp/7.sh'')
             \<in> set (snd (run ?P \<lparr>job_id = ''7''\<rparr> configured))"
    by (simp add: run_configured)
  from move_commands_forced [OF m] obtain name chroot wsdir results_dir where
    acq: "chroot_name configured = Some name"
      "spark_schroot ?P name (job_id \<lparr>job_id = ''7''\<rparr>) = Inr (chroot, wsdir, results_dir)"
    and mv: "filter is_move ?cs =
             [''mv *.iso '' @ results_dir @ ''/'',
              ''mv -f *.zsync '' @ results_dir @ ''/'',
              ''mv -f *.contents '' @ results_dir @ ''/'',
              ''mv -f *.files '' @ results_dir @ ''/'',
              ''mv -f *.packages '' @ results_dir @ ''/'',
              ''mv -f *.b2sum '' @ results_dir @ ''/'',
              ''mv -f *.sha256sum '' @ results_dir @ ''/'']"
    and forced: "map is_forced (filter is_move ?cs) = [False, True, True, True, True, True, True]"
    by (elim exE conjE)
  from acq have "results_dir = ''/srv/results''"
    by (simp add: simulated_def)
  with m mv forced show ?thesis
    by auto
qed

text \<open>
  Claim C7, at the flavor \<^verbatim>\<open>a b\<close>.  \<^verbatim>\<open>shlex.quote\<close> returns the flavor between single
  quotes, and line 73 puts what it returns between double quotes: the export line of the
  script is \<^verbatim>\<open>export FLAVOR="'a b'"\<close>, not \<^verbatim>\<open>export FLAVOR='a b'\<close>.
\<close>

theorem flavor_export_quoted_twice:
  \<open>shlex_quote (PyStr ''a b'') = Inr ([CHR 0x27] @ ''a b'' @ [CHR 0x27])
   \<and> build_commands
        (snd (set_job (stable_amd64\<lparr>data := Mapping [(''suite'', PyStr ''stable''),
                      (''liveBuildGit'', PyStr ''https://example.org/lb.git''),
                      (''flavor'', PyStr ''a b'')]\<rparr>) ''/srv/ws'' init))
        ''/srv/ws'' ''/srv/results''
      = Inr [''export DEBIAN_FRONTEND=noninteractive'',
             ''cd /srv/ws'',
             ''git clone --depth=2 https://example.org/lb.git /srv/ws/lb'',
             ''cd ./lb'',
             ''export FLAVOR="'a b'"'',
             ''lb config'',
             ''lb build'',
             ''b2sum *.iso *.contents *.zsync *.packages > checksums.b2sum'',
             ''sha256sum *.iso *.contents *.zsync *.packages > checksums.sha256sum'',
             ''mv *.iso /srv/results/'',
             ''mv -f *.zsync /srv/results/'',
             ''mv -f *.contents /srv/results/'',
             ''mv -f *.files /srv/results/'',
             ''mv -f *.packages /srv/results/'',
             ''mv -f *.b2sum /srv/results/'',
             ''mv -f *.sha256sum /srv/results/'']\<close>
proof -
  have q: "shlex_quote (PyStr ''a b'') = Inr ([CHR 0x27] @ ''a b'' @ [CHR 0x27])"
    by (simp add: shlex_quote_def find_unsafe_def is_safe_def safe_chars_def replace_char_def)
  show ?thesis
    by (simp add: q [simplified] build_commands_def stable_amd64_def set_job_def init_def
          job_data_get_def dict_get_def quote_url flavor_export_def save_artifacts_def
          append_def Let_def)
qed

section \<open>Properties of \<^verbatim>\<open>run\<close>\<close>

text \<open>The trace of a run that acquired its sandbox: the acquisition, the events of the
  block, the exit hook.\<close>

lemma run_trace_acquired:
  assumes "chroot_name self = Some name"
    and "spark_schroot P name (job_id jlog) = Inr (c, ws, rd)"
  shows "snd (run P jlog self) =
           SparkSchroot name (job_id jlog) (Inr (c, ws, rd))
           # snd (run_body P jlog self c ws rd)
           @ [SchrootExit c (in_flight (fst (run_body P jlog self c ws rd)))
                (schroot_exit P c (in_flight (fst (run_body P jlog self c ws rd))))]"
    and "fst (run P jlog self) =
           (case leave_with (fst (run_body P jlog self c ws rd))
                   (schroot_exit P c (in_flight (fst (run_body P jlog self c ws rd)))) of
              Fallthrough \<Rightarrow> Inr True | Return b \<Rightarrow> Inr b | Raise e \<Rightarrow> Inl e)"
  using assms by (simp_all add: run_def Let_def split: flow.splits)

lemma run_trace_cases:
  assumes "e \<in> set (snd (run P jlog self))"
  obtains name c ws rd where "chroot_name self = Some name"
    and "spark_schroot P name (job_id jlog) = Inr (c, ws, rd)"
    and "e = SparkSchroot name (job_id jlog) (Inr (c, ws, rd))
         \<or> e \<in> set (snd (run_body P jlog self c ws rd))
         \<or> e = SchrootExit c (in_flight (fst (run_body P jlog self c ws rd)))
                 (schroot_exit P c (in_flight (fst (run_body P jlog self c ws rd))))"
  | name err where "chroot_name self = Some name"
    and "spark_schroot P name (job_id jlog) = Inl err"
    and "e = SparkSchroot name (job_id jlog) (Inl err)"
proof (cases "chroot_name self")
  case None
  with assms show ?thesis by (simp add: run_def)
next
  case (Some n)
  show ?thesis
  proof (cases "spark_schroot P n (job_id jlog)")
    case (Inl err)
    with Some assms have "e = SparkSchroot n (job_id jlog) (Inl err)"
      by (simp add: run_def)
    with Some Inl show ?thesis by (rule that(2))
  next
    case (Inr sb)
    obtain c ws rd where sb: "sb = (c, ws, rd)" by (cases sb)
    from assms run_trace_acquired(1) [OF Some Inr [unfolded sb]]
    have "e = SparkSchroot n (job_id jlog) (Inr (c, ws, rd))
         \<or> e \<in> set (snd (run_body P jlog self c ws rd))
         \<or> e = SchrootExit c (in_flight (fst (run_body P jlog self c ws rd)))
                 (schroot_exit P c (in_flight (fst (run_body P jlog self c ws rd))))"
      by auto
    with Some Inr [unfolded sb] show ?thesis by (rule that(1))
  qed
qed

text \<open>Neither acquisition nor release happens inside the block.\<close>

lemma run_commandfile_no_release:
  "filter is_release (snd (run_commandfile P c f r)) = []"
  by (simp add: run_commandfile_def Let_def split: sum.splits)

lemma run_build_no_release:
  "filter is_release (snd (run_build P jlog self c ws rd r)) = []"
  by (simp add: run_build_def run_commandfile_no_release Let_def
           split: sum.splits flow.splits)

lemma run_body_no_release:
  "filter is_release (snd (run_body P jlog self c ws rd)) = []"
  by (simp add: run_body_def run_build_no_release Let_def split: sum.splits)

lemma run_body_not_release:
  "SchrootExit c' exc hook \<notin> set (snd (run_body P jlog self c ws rd))"
proof
  assume "SchrootExit c' exc hook \<in> set (snd (run_body P jlog self c ws rd))"
  then have "SchrootExit c' exc hook
               \<in> set (filter is_release (snd (run_body P jlog self c ws rd)))"
    by simp
  then show False
    by (simp only: run_body_no_release set_simps empty_iff)
qed

lemma run_commandfile_no_acquire:
  "filter is_acquire (snd (run_commandfile P c f r)) = []"
  by (simp add: run_commandfile_def Let_def split: sum.splits)

lemma run_build_no_acquire:
  "filter is_acquire (snd (run_build P jlog self c ws rd r)) = []"
  by (simp add: run_build_def run_commandfile_no_acquire Let_def
           split: sum.splits flow.splits)

lemma run_body_no_acquire:
  "filter is_acquire (snd (run_body P jlog self c ws rd)) = []"
  by (simp add: run_body_def run_build_no_acquire Let_def split: sum.splits)

lemma run_body_not_acquire:
  "SparkSchroot name jid a \<notin> set (snd (run_body P jlog self c ws rd))"
proof
  assume "SparkSchroot name jid a \<in> set (snd (run_body P jlog self c ws rd))"
  then have "SparkSchroot name jid a
               \<in> set (filter is_acquire (snd (run_body P jlog self c ws rd)))"
    by simp
  then show False
    by (simp only: run_body_no_acquire set_simps empty_iff)
qed

text \<open>
  Claim C4.  In every run that has acquired its sandbox, whatever the run returns or
  raises, the exit hook of \<^verbatim>\<open>spark_schroot\<close> is called exactly once, for the sandbox that was
  acquired, and it is the last thing the run does.
\<close>

theorem sandbox_released_once:
  assumes "SparkSchroot name jid (Inr (c, ws, rd)) \<in> set (snd (run P jlog self))"
  shows "\<exists>exc. filter is_release (snd (run P jlog self))
                  = [SchrootExit c exc (schroot_exit P c exc)]
               \<and> last (snd (run P jlog self)) = SchrootExit c exc (schroot_exit P c exc)"
  using assms
proof (cases rule: run_trace_cases)
  case (1 n c' ws' rd')
  note tr = run_trace_acquired(1) [OF 1(1,2)]
  from 1(3) have "c' = c"
    by (simp add: run_body_not_acquire)
  then have "filter is_release (snd (run P jlog self))
               = [SchrootExit c (in_flight (fst (run_body P jlog self c ws' rd')))
                    (schroot_exit P c (in_flight (fst (run_body P jlog self c ws' rd'))))]
           \<and> last (snd (run P jlog self))
               = SchrootExit c (in_flight (fst (run_body P jlog self c ws' rd')))
                    (schroot_exit P c (in_flight (fst (run_body P jlog self c ws' rd'))))"
    unfolding tr by (simp add: run_body_no_release)
  then show ?thesis ..
next
  case (2 n err)
  then show ?thesis by simp
qed

text \<open>The exit path of the witness is a propagated fault: the upgrade raises, and the
  hook is handed that exception.\<close>

theorem sandbox_released_once_witness:
  "SparkSchroot ''stable-amd64'' ''7'' (Inr (''stable-amd64:7'', ''/srv/ws'', ''/srv/results''))
     \<in> set (snd (run ((simulated True (\<lambda>argv. 0))
                        \<lparr>chroot_upgrade := \<lambda>chroot. Inl (SandboxFault ''apt'')\<rparr>)
                   \<lparr>job_id = ''7''\<rparr> configured))
   \<and> fst (run ((simulated True (\<lambda>argv. 0))
                        \<lparr>chroot_upgrade := \<lambda>chroot. Inl (SandboxFault ''apt'')\<rparr>)
                   \<lparr>job_id = ''7''\<rparr> configured) = Inl (SandboxFault ''apt'')
   \<and> filter is_release (snd (run ((simulated True (\<lambda>argv. 0))
                        \<lparr>chroot_upgrade := \<lambda>chroot. Inl (SandboxFault ''apt'')\<rparr>)
                   \<lparr>job_id = ''7''\<rparr> configured))
       = [SchrootExit ''stable-amd64:7'' (Some (SandboxFault ''apt'')) (Inr False)]
   \<and> last (snd (run ((simulated True (\<lambda>argv. 0))
                        \<lparr>chroot_upgrade := \<lambda>chroot. Inl (SandboxFault ''apt'')\<rparr>)
                   \<lparr>job_id = ''7''\<rparr> configured))
       = SchrootExit ''stable-amd64:7'' (Some (SandboxFault ''apt'')) (Inr False)"
proof -
  let ?P = "(simulated True (\<lambda>argv. 0))\<lparr>chroot_upgrade := \<lambda>chroot. Inl (SandboxFault ''apt'')\<rparr>"
  have r: "run ?P \<lparr>job_id = ''7''\<rparr> configured =
     (Inl (SandboxFault ''apt''),
      [SparkSchroot ''stable-amd64'' ''7''
         (Inr (''stable-amd64:7'', ''/srv/ws'', ''/srv/results'')),
       ChrootUpgrade ''stable-amd64:7'' (Inl (SandboxFault ''apt'')),
       SchrootExit ''stable-amd64:7'' (Some (SandboxFault ''apt'')) (Inr False)])"
    by (simp add: run_def run_body_def simulated_def chroot_name_configured Let_def)
  have m: "SparkSchroot ''stable-amd64'' ''7''
             (Inr (''stable-amd64:7'', ''/srv/ws'', ''/srv/results''))
           \<in> set (snd (run ?P \<lparr>job_id = ''7''\<rparr> configured))"
    by (simp add: r)
  from sandbox_released_once [OF m] m show ?thesis
    by (simp add: r)
qed

text \<open>Which commands the parts of the block run.\<close>

lemma run_commandfile_logged:
  assumes "ChrootRunLogged c' argv user r \<in> set (snd (run_commandfile P c f ret))"
  shows "c' = c \<and> argv = [''sh'', ''-e'', f] \<and> user = ''root''"
  using assms by (auto simp: run_commandfile_def Let_def split: sum.splits)

lemma run_build_logged:
  assumes "ChrootRunLogged c' argv user r \<in> set (snd (run_build P jlog self c ws rd ret))"
  shows "\<exists>f. c' = c \<and> argv = [''sh'', ''-e'', f] \<and> user = ''root''"
proof (cases "build_commands self ws rd")
  case (Inl e)
  with assms show ?thesis by (simp add: run_build_def)
next
  case (Inr cs)
  show ?thesis
  proof (cases "make_commandfile P (job_id jlog) cs")
    case (Inl e)
    with Inr assms show ?thesis by (simp add: run_build_def)
  next
    case f: (Inr f)
    from assms Inr f
    have "ChrootRunLogged c' argv user r \<in> set (snd (run_commandfile P c f ret))"
      by (simp add: run_build_def Let_def split: flow.splits)
    from run_commandfile_logged [OF this] show ?thesis by blast
  qed
qed

lemma run_body_install_git:
  assumes "ChrootRunLogged c' install_git ''root'' (Inr ret)
             \<in> set (snd (run_body P jlog self c ws rd))"
    and "ret \<noteq> 0"
  shows "c' = c \<and> (\<exists>u. run_body P jlog self c ws rd =
           (Return False,
            [ChrootUpgrade c u, ChrootRunLogged c install_git ''root'' (Inr ret)]))"
proof (cases "chroot_upgrade P c")
  case (Inl e)
  with assms show ?thesis by (simp add: run_body_def)
next
  case u: (Inr u)
  show ?thesis
  proof (cases "chroot_run_logged P c install_git ''root''")
    case (Inl e)
    with u assms show ?thesis by (simp add: run_body_def)
  next
    case g: (Inr st)
    show ?thesis
    proof (cases "st = 0")
      case False
      with u g assms show ?thesis by (auto simp: run_body_def)
    next
      case True
      show ?thesis
      proof (cases "chroot_run_logged P c install_live_build ''root''")
        case (Inl e)
        with u g True assms show ?thesis
          by (simp add: run_body_def install_git_def install_live_build_def)
      next
        case l: (Inr st')
        show ?thesis
        proof (cases "st' = 0")
          case False
          with u g True l assms show ?thesis
            by (simp add: run_body_def install_git_def install_live_build_def)
        next
          case st': True
          from u g True l st' assms
          have "ChrootRunLogged c' install_git ''root'' (Inr ret)
                  \<in> set (snd (run_build P jlog self c ws rd 0))"
            by (simp add: run_body_def Let_def install_git_def install_live_build_def)
          from run_build_logged [OF this] show ?thesis
            by (simp add: install_git_def)
        qed
      qed
    qed
  qed
qed

text \<open>After a failed first installation the run is the acquisition, the upgrade, that
  installation and the exit hook, whatever the hook then does.\<close>

lemma first_install_failure_trace:
  assumes "ChrootRunLogged c install_git ''root'' (Inr ret) \<in> set (snd (run P jlog self))"
    and "ret \<noteq> 0"
  shows "\<exists>name a u. snd (run P jlog self) =
               [SparkSchroot name (job_id jlog) a, ChrootUpgrade c u,
                ChrootRunLogged c install_git ''root'' (Inr ret),
                SchrootExit c None (schroot_exit P c None)]
           \<and> fst (run P jlog self) =
               (case schroot_exit P c None of Inl e \<Rightarrow> Inl e | Inr b \<Rightarrow> Inr False)"
  using assms(1)
proof (cases rule: run_trace_cases)
  case (1 n c' ws rd)
  from 1(3) have "ChrootRunLogged c install_git ''root'' (Inr ret)
                    \<in> set (snd (run_body P jlog self c' ws rd))"
    by simp
  from run_body_install_git [OF this assms(2)] obtain u where
    "c = c'" and b: "run_body P jlog self c' ws rd =
           (Return False,
            [ChrootUpgrade c' u, ChrootRunLogged c' install_git ''root'' (Inr ret)])"
    by auto
  with run_trace_acquired [OF 1(1,2)] show ?thesis
    by (cases "schroot_exit P c' None") simp_all
next
  case (2 n err)
  then show ?thesis by simp
qed

text \<open>
  Claim C3.  When the installation of \<^verbatim>\<open>git\<close> and \<^verbatim>\<open>ca-certificates\<close> reports a nonzero
  status and the release of the sandbox returns, \<^verbatim>\<open>run\<close> returns false, and the run
  consists of the acquisition, the upgrade, that installation and the release: no
  installation of \<^verbatim>\<open>live-build\<close>, no command file, no copy and no execution of a script.
\<close>

theorem first_install_failure:
  assumes "ChrootRunLogged c install_git ''root'' (Inr ret) \<in> set (snd (run P jlog self))"
    and "ret \<noteq> 0"
    and "SchrootExit c' exc (Inr b) \<in> set (snd (run P jlog self))"
  shows "fst (run P jlog self) = Inr False
         \<and> (\<exists>name a u. snd (run P jlog self) =
               [SparkSchroot name (job_id jlog) a, ChrootUpgrade c u,
                ChrootRunLogged c install_git ''root'' (Inr ret),
                SchrootExit c None (Inr b)])"
proof -
  from first_install_failure_trace [OF assms(1,2)] obtain name a u where
    tr: "snd (run P jlog self) =
               [SparkSchroot name (job_id jlog) a, ChrootUpgrade c u,
                ChrootRunLogged c install_git ''root'' (Inr ret),
                SchrootExit c None (schroot_exit P c None)]"
    and out: "fst (run P jlog self) =
               (case schroot_exit P c None of Inl e \<Rightarrow> Inl e | Inr b \<Rightarrow> Inr False)"
    by blast
  from assms(3) have hook: "schroot_exit P c None = Inr b"
    unfolding tr by simp
  from out hook have "fst (run P jlog self) = Inr False"
    by simp
  moreover from tr hook have "\<exists>name a u. snd (run P jlog self) =
               [SparkSchroot name (job_id jlog) a, ChrootUpgrade c u,
                ChrootRunLogged c install_git ''root'' (Inr ret),
                SchrootExit c None (Inr b)]"
    by simp
  ultimately show ?thesis ..
qed

theorem first_install_failure_witness:
  "ChrootRunLogged ''stable-amd64:7'' install_git ''root'' (Inr 100)
     \<in> set (snd (run (simulated True (\<lambda>argv. if argv = install_git then 100 else 0))
                   \<lparr>job_id = ''7''\<rparr> configured))
   \<and> (100 :: int) \<noteq> 0
   \<and> SchrootExit ''stable-amd64:7'' None (Inr False)
     \<in> set (snd (run (simulated True (\<lambda>argv. if argv = install_git then 100 else 0))
                   \<lparr>job_id = ''7''\<rparr> configured))
   \<and> run (simulated True (\<lambda>argv. if argv = install_git then 100 else 0))
        \<lparr>job_id = ''7''\<rparr> configured
     = (Inr False,
        [SparkSchroot ''stable-amd64'' ''7''
           (Inr (''stable-amd64:7'', ''/srv/ws'', ''/srv/results'')),
         ChrootUpgrade ''stable-amd64:7'' (Inr True),
         ChrootRunLogged ''stable-amd64:7'' install_git ''root'' (Inr 100),
         SchrootExit ''stable-amd64:7'' None (Inr False)])"
proof -
  let ?P = "simulated True (\<lambda>argv. if argv = install_git then 100 else 0)"
  have acq: "spark_schroot ?P ''stable-amd64'' ''7''
               = Inr (''stable-amd64:7'', ''/srv/ws'', ''/srv/results'')"
    and up: "chroot_upgrade ?P ''stable-amd64:7'' = Inr True"
    and st: "chroot_run_logged ?P ''stable-amd64:7'' install_git ''root'' = Inr 100"
    and ex: "schroot_exit ?P ''stable-amd64:7'' None = Inr False"
    by (simp_all add: simulated_def)
  have t0: "snd (run ?P \<lparr>job_id = ''7''\<rparr> configured) =
        [SparkSchroot ''stable-amd64'' ''7''
           (Inr (''stable-amd64:7'', ''/srv/ws'', ''/srv/results'')),
         ChrootUpgrade ''stable-amd64:7'' (Inr True),
         ChrootRunLogged ''stable-amd64:7'' install_git ''root'' (Inr 100),
         SchrootExit ''stable-amd64:7'' None (Inr False)]"
    by (simp add: run_def run_body_def acq up st ex chroot_name_configured Let_def)
  have m: "ChrootRunLogged ''stable-amd64:7'' install_git ''root'' (Inr 100)
             \<in> set (snd (run ?P \<lparr>job_id = ''7''\<rparr> configured))"
    and x: "SchrootExit ''stable-amd64:7'' None (Inr False)
             \<in> set (snd (run ?P \<lparr>job_id = ''7''\<rparr> configured))"
    by (simp_all add: t0)
  have nz: "(100 :: int) \<noteq> 0" by simp
  from first_install_failure [OF m nz x]
  have "fst (run ?P \<lparr>job_id = ''7''\<rparr> configured) = Inr False"
    by (rule conjunct1)
  with m nz x t0 show ?thesis
    by (simp add: prod_eq_iff)
qed

text \<open>When the release raises instead, that exception leaves \<^verbatim>\<open>run\<close>; the trace is the
  same four events.\<close>

lemma first_install_failure_release_raises:
  assumes "ChrootRunLogged c install_git ''root'' (Inr ret) \<in> set (snd (run P jlog self))"
    and "ret \<noteq> 0"
    and "schroot_exit P c None = Inl e"
  shows "fst (run P jlog self) = Inl e"
  using first_install_failure_trace [OF assms(1,2)] assms(3) by auto

text \<open>A run in which every call and both exit hooks return, and both installations report
  zero: its result is decided by the status of the script.\<close>

lemma run_all_return:
  assumes "chroot_name self = Some name"
    and "spark_schroot P name (job_id jlog) = Inr (c, ws, rd)"
    and "chroot_upgrade P c = Inr u"
    and "chroot_run_logged P c install_git ''root'' = Inr 0"
    and "chroot_run_logged P c install_live_build ''root'' = Inr 0"
    and "build_commands self ws rd = Inr commands"
    and "make_commandfile P (job_id jlog) commands = Inr f"
    and "chroot_copy P c f f = Inr ()"
    and "chroot_run_logged P c [''sh'', ''-e'', f] ''root'' = Inr st"
    and "commandfile_exit P f None = Inr b1"
    and "schroot_exit P c None = Inr b2"
  shows "run P jlog self =
           (Inr (st = 0),
            [SparkSchroot name (job_id jlog) (Inr (c, ws, rd)),
             ChrootUpgrade c (Inr u),
             ChrootRunLogged c install_git ''root'' (Inr 0),
             ChrootRunLogged c install_live_build ''root'' (Inr 0),
             MakeCommandfile (job_id jlog) commands (Inr f),
             ChrootCopy c f f (Inr ()),
             ChrootRunLogged c [''sh'', ''-e'', f] ''root'' (Inr st),
             CommandfileExit f None (Inr b1),
             SchrootExit c None (Inr b2)])"
proof -
  from assms(8-10) have cf: "run_commandfile P c f 0 =
      ((if st \<noteq> 0 then Return False else Fallthrough, st),
       [ChrootCopy c f f (Inr ()), ChrootRunLogged c [''sh'', ''-e'', f] ''root'' (Inr st)])"
    by (simp add: run_commandfile_def)
  from assms(6,7,10) have bd: "run_build P jlog self c ws rd 0 =
      (if st \<noteq> 0 then Return False else Fallthrough,
       [MakeCommandfile (job_id jlog) commands (Inr f),
        ChrootCopy c f f (Inr ()), ChrootRunLogged c [''sh'', ''-e'', f] ''root'' (Inr st),
        CommandfileExit f None (Inr b1)])"
    by (simp add: run_build_def cf Let_def)
  from assms(3-5) have body: "run_body P jlog self c ws rd =
      (if st \<noteq> 0 then Return False else Fallthrough,
       [ChrootUpgrade c (Inr u),
        ChrootRunLogged c install_git ''root'' (Inr 0),
        ChrootRunLogged c install_live_build ''root'' (Inr 0),
        MakeCommandfile (job_id jlog) commands (Inr f),
        ChrootCopy c f f (Inr ()), ChrootRunLogged c [''sh'', ''-e'', f] ''root'' (Inr st),
        CommandfileExit f None (Inr b1)])"
    by (simp add: run_body_def bd Let_def)
  from assms(1,2,11) show ?thesis
    by (simp add: run_def body Let_def)
qed

text \<open>
  Claim C5.  When both installations report status zero and the execution of the script
  reports status zero, \<^verbatim>\<open>run\<close> returns true, whatever the upgrade returned: \<open>u\<close> is any
  value, and the run goes on to the installations after it.  The other hypotheses say that
  the steps up to the execution of the script took place and that the exit hooks return.
  (An upgrade that raises returns nothing to discard: it is a fault of the provider, and
  no installation takes place; see \<open>upgrade_raises\<close> below.)
\<close>

theorem all_steps_zero:
  assumes "chroot_name self = Some name"
    and "spark_schroot P name (job_id jlog) = Inr (c, ws, rd)"
    and "chroot_upgrade P c = Inr u"
    and "chroot_run_logged P c install_git ''root'' = Inr 0"
    and "chroot_run_logged P c install_live_build ''root'' = Inr 0"
    and "build_commands self ws rd = Inr commands"
    and "make_commandfile P (job_id jlog) commands = Inr f"
    and "chroot_copy P c f f = Inr ()"
    and "chroot_run_logged P c [''sh'', ''-e'', f] ''root'' = Inr 0"
    and "commandfile_exit P f None = Inr b1"
    and "schroot_exit P c None = Inr b2"
  shows "run P jlog self =
           (Inr True,
            [SparkSchroot name (job_id jlog) (Inr (c, ws, rd)),
             ChrootUpgrade c (Inr u),
             ChrootRunLogged c install_git ''root'' (Inr 0),
             ChrootRunLogged c install_live_build ''root'' (Inr 0),
             MakeCommandfile (job_id jlog) commands (Inr f),
             ChrootCopy c f f (Inr ()),
             ChrootRunLogged c [''sh'', ''-e'', f] ''root'' (Inr 0),
             CommandfileExit f None (Inr b1),
             SchrootExit c None (Inr b2)])"
  using run_all_return [OF assms] by simp

text \<open>In the witness the upgrade returns false, and the run returns true.\<close>

theorem all_steps_zero_witness:
  "chroot_upgrade (simulated False (\<lambda>argv. 0)) ''stable-amd64:7'' = Inr False
   \<and> run (simulated False (\<lambda>argv. 0)) \<lparr>job_id = ''7''\<rparr> configured =
       (Inr True,
        [SparkSchroot ''stable-amd64'' ''7''
           (Inr (''stable-amd64:7'', ''/srv/ws'', ''/srv/results'')),
         ChrootUpgrade ''stable-amd64:7'' (Inr False),
         ChrootRunLogged ''stable-amd64:7'' install_git ''root'' (Inr 0),
         ChrootRunLogged ''stable-amd64:7'' install_live_build ''root'' (Inr 0),
         MakeCommandfile ''7'' (projr (build_commands configured ''/srv/ws'' ''/srv/results''))
           (Inr ''/tmp/7.sh''),
         ChrootCopy ''stable-amd64:7'' ''/tmp/7.sh'' ''/tmp/7.sh'' (Inr ()),
         ChrootRunLogged ''stable-amd64:7'' [''sh'', ''-e'', ''/tmp/7.sh''] ''root'' (Inr 0),
         CommandfileExit ''/tmp/7.sh'' None (Inr False),
         SchrootExit ''stable-amd64:7'' None (Inr False)])"
proof -
  let ?P = "simulated False (\<lambda>argv. 0)"
  let ?cs = "projr (build_commands configured ''/srv/ws'' ''/srv/results'')"
  have up: "chroot_upgrade ?P ''stable-amd64:7'' = Inr False"
    by (simp add: simulated_def)
  have b: "build_commands configured ''/srv/ws'' ''/srv/results'' = Inr ?cs"
    by (simp add: build_configured)
  have "run ?P \<lparr>job_id = ''7''\<rparr> configured =
       (Inr True,
        [SparkSchroot ''stable-amd64'' (job_id \<lparr>job_id = ''7''\<rparr>)
           (Inr (''stable-amd64:7'', ''/srv/ws'', ''/srv/results'')),
         ChrootUpgrade ''stable-amd64:7'' (Inr False),
         ChrootRunLogged ''stable-amd64:7'' install_git ''root'' (Inr 0),
         ChrootRunLogged ''stable-amd64:7'' install_live_build ''root'' (Inr 0),
         MakeCommandfile (job_id \<lparr>job_id = ''7''\<rparr>) ?cs (Inr ''/tmp/7.sh''),
         ChrootCopy ''stable-amd64:7'' ''/tmp/7.sh'' ''/tmp/7.sh'' (Inr ()),
         ChrootRunLogged ''stable-amd64:7'' [''sh'', ''-e'', ''/tmp/7.sh''] ''root'' (Inr 0),
         CommandfileExit ''/tmp/7.sh'' None (Inr False),
         SchrootExit ''stable-amd64:7'' None (Inr False)])"
    by (rule all_steps_zero [OF chroot_name_configured _ up _ _ b])
      (simp_all add: simulated_def)
  with up show ?thesis
    by simp
qed

text \<open>A fault raised by the upgrade leaves \<^verbatim>\<open>run\<close>, after the release, unless the exit hook
  swallows it.\<close>

lemma upgrade_raises:
  assumes "chroot_name self = Some name"
    and "spark_schroot P name (job_id jlog) = Inr (c, ws, rd)"
    and "chroot_upgrade P c = Inl e"
    and "schroot_exit P c (Some e) = Inr False"
  shows "run P jlog self =
           (Inl e,
            [SparkSchroot name (job_id jlog) (Inr (c, ws, rd)),
             ChrootUpgrade c (Inl e),
             SchrootExit c (Some e) (Inr False)])"
  using assms by (simp add: run_def run_body_def Let_def)

section \<open>A job without \<^verbatim>\<open>liveBuildGit\<close>\<close>

text \<open>
  Claim C10, as stated: \<^verbatim>\<open>set_job\<close> accepts a job without \<^verbatim>\<open>liveBuildGit\<close>, and the
  run that follows raises while it assembles the clone command.  \<^verbatim>\<open>set_job\<close> does accept
  the job, but \<^verbatim>\<open>shlex.quote(None)\<close> returns two quote characters and raises nothing:
  the script is built with a clone of the empty string, and a run whose script then
  exits with status 128 returns false.
\<close>

theorem missing_live_build_git_counterexample:
  "fst (set_job (stable_amd64\<lparr>data := Mapping [(''suite'', PyStr ''stable'')]\<rparr>)
          ''/srv/ws'' init) = Inr True
   \<and> build_commands
        (snd (set_job (stable_amd64\<lparr>data := Mapping [(''suite'', PyStr ''stable'')]\<rparr>)
                ''/srv/ws'' init))
        ''/srv/ws'' ''/srv/results''
      = Inr [''export DEBIAN_FRONTEND=noninteractive'',
             ''cd /srv/ws'',
             ''git clone --depth=2 '' @ [CHR 0x27, CHR 0x27] @ '' /srv/ws/lb'',
             ''cd ./lb'',
             ''lb config'',
             ''lb build'',
             ''b2sum *.iso *.contents *.zsync *.packages > checksums.b2sum'',
             ''sha256sum *.iso *.contents *.zsync *.packages > checksums.sha256sum'',
             ''mv *.iso /srv/results/'',
             ''mv -f *.zsync /srv/results/'',
             ''mv -f *.contents /srv/results/'',
             ''mv -f *.files /srv/results/'',
             ''mv -f *.packages /srv/results/'',
             ''mv -f *.b2sum /srv/results/'',
             ''mv -f *.sha256sum /srv/results/'']
   \<and> fst (run (simulated True (\<lambda>argv. if argv = [''sh'', ''-e'', ''/tmp/7.sh''] then 128 else 0))
            \<lparr>job_id = ''7''\<rparr>
            (snd (set_job (stable_amd64\<lparr>data := Mapping [(''suite'', PyStr ''stable'')]\<rparr>)
                    ''/srv/ws'' init)))
      = Inr False"
proof -
  let ?self = "\<lparr>workspace = Some ''/srv/ws'',
                 job_data = Some (Mapping [(''suite'', PyStr ''stable'')]),
                 chroot_name = Some ''stable-amd64''\<rparr>"
  let ?P = "simulated True (\<lambda>argv. if argv = [''sh'', ''-e'', ''/tmp/7.sh''] then 128 else 0)"
  have s: "set_job (stable_amd64\<lparr>data := Mapping [(''suite'', PyStr ''stable'')]\<rparr>)
             ''/srv/ws'' init = (Inr True, ?self)"
    by (simp add: stable_amd64_def set_job_def dict_get_def init_def)
  have b: "build_commands ?self ''/srv/ws'' ''/srv/results''
      = Inr [''export DEBIAN_FRONTEND=noninteractive'',
             ''cd /srv/ws'',
             ''git clone --depth=2 '' @ [CHR 0x27, CHR 0x27] @ '' /srv/ws/lb'',
             ''cd ./lb'',
             ''lb config'',
             ''lb build'',
             ''b2sum *.iso *.contents *.zsync *.packages > checksums.b2sum'',
             ''sha256sum *.iso *.contents *.zsync *.packages > checksums.sha256sum'',
             ''mv *.iso /srv/results/'',
             ''mv -f *.zsync /srv/results/'',
             ''mv -f *.contents /srv/results/'',
             ''mv -f *.files /srv/results/'',
             ''mv -f *.packages /srv/results/'',
             ''mv -f *.b2sum /srv/results/'',
             ''mv -f *.sha256sum /srv/results/'']"
    by (simp add: build_commands_def job_data_get_def dict_get_def shlex_quote_def
          flavor_export_def save_artifacts_def append_def Let_def)
  have "fst (run ?P \<lparr>job_id = ''7''\<rparr> ?self) = Inr False"
    by (simp add: run_def run_body_def run_build_def run_commandfile_def simulated_def b install_git_def install_live_build_def Let_def)
  with s b show ?thesis
    by simp
qed

lemma flavor_export_total:
  assumes "flavor = PyNone \<or> (\<exists>f. flavor = PyStr f)"
  shows "\<exists>fl. flavor_export commands flavor = Inr (commands @ fl)"
  using assms by (auto simp: flavor_export_def shlex_quote_def append_def)

text \<open>
  Claim C10, amended.  For a job whose \<^verbatim>\<open>data\<close> mapping holds a non-empty suite and no
  \<^verbatim>\<open>liveBuildGit\<close>, with a non-empty architecture and with a flavor that is absent or a
  string, \<^verbatim>\<open>set_job\<close> returns true, quoting the missing value gives two quote characters,
  and \<open>build_commands\<close> on the configured instance returns a script whose third line
  clones the empty string.  In a run on that instance in which the sandbox is acquired,
  every call and both exit hooks return and both installations report zero, that script
  is handed to \<^verbatim>\<open>make_commandfile\<close>, and \<^verbatim>\<open>run\<close> returns true when the script exits with
  status zero and false when it exits with any other status.
\<close>

theorem missing_live_build_git:
  assumes "data j = Mapping d"
    and "map_of d ''liveBuildGit'' = None"
    and "truthy (dict_get d ''suite'')"
    and "truthy (architecture j)"
    and "dict_get d ''flavor'' = PyNone \<or> (\<exists>f. dict_get d ''flavor'' = PyStr f)"
    and "spark_schroot P (py_str (dict_get d ''suite'') @ ''-'' @ py_str (architecture j))
           (job_id jlog) = Inr (c, wsdir, results_dir)"
    and "chroot_upgrade P c = Inr u"
    and "chroot_run_logged P c install_git ''root'' = Inr 0"
    and "chroot_run_logged P c install_live_build ''root'' = Inr 0"
    and "\<And>commands. make_commandfile P (job_id jlog) commands = Inr shfname"
    and "chroot_copy P c shfname shfname = Inr ()"
    and "chroot_run_logged P c [''sh'', ''-e'', shfname] ''root'' = Inr st"
    and "commandfile_exit P shfname None = Inr b1"
    and "schroot_exit P c None = Inr b2"
  shows "fst (set_job j w self) = Inr True
         \<and> shlex_quote (dict_get d ''liveBuildGit'') = Inr [CHR 0x27, CHR 0x27]
         \<and> (\<exists>commands.
               build_commands (snd (set_job j w self)) wsdir results_dir = Inr commands
             \<and> commands ! 2
                 = ''git clone --depth=2 '' @ [CHR 0x27, CHR 0x27] @ '' '' @ wsdir @ ''/lb''
             \<and> MakeCommandfile (job_id jlog) commands (Inr shfname)
                 \<in> set (snd (run P jlog (snd (set_job j w self)))))
         \<and> fst (run P jlog (snd (set_job j w self))) = Inr (st = 0)"
proof -
  let ?name = "py_str (dict_get d ''suite'') @ ''-'' @ py_str (architecture j)"
  let ?self = "snd (set_job j w self)"
  from assms(3) have ne: "d \<noteq> []"
    by (auto simp: dict_get_def)
  with assms(1,3,4) have s: "set_job j w self =
      (Inr True, self\<lparr>workspace := Some w, job_data := Some (Mapping d),
                      chroot_name := Some ?name\<rparr>)"
    by (simp add: set_job_def)
  then have cn: "chroot_name ?self = Some ?name"
    by simp
  from assms(2) have url: "dict_get d ''liveBuildGit'' = PyNone"
    by (simp add: dict_get_def)
  then have q: "shlex_quote (dict_get d ''liveBuildGit'') = Inr [CHR 0x27, CHR 0x27]"
    by (simp add: shlex_quote_def)
  from flavor_export_total [OF assms(5)] obtain fl where
    "flavor_export [''export DEBIAN_FRONTEND=noninteractive'', ''cd '' @ wsdir,
        ''git clone --depth=2 '' @ [CHR 0x27, CHR 0x27] @ '' '' @ wsdir @ ''/lb'', ''cd ./lb'']
       (dict_get d ''flavor'')
     = Inr ([''export DEBIAN_FRONTEND=noninteractive'', ''cd '' @ wsdir,
        ''git clone --depth=2 '' @ [CHR 0x27, CHR 0x27] @ '' '' @ wsdir @ ''/lb'', ''cd ./lb'']
            @ fl)"
    by blast
  with s q obtain commands where
    b: "build_commands ?self wsdir results_dir = Inr commands"
    and c2: "commands ! 2
               = ''git clone --depth=2 '' @ [CHR 0x27, CHR 0x27] @ '' '' @ wsdir @ ''/lb''"
    by (simp add: build_commands_def job_data_get_def save_artifacts_def append_def Let_def)
  note r = run_all_return [OF cn assms(6-9) b assms(10-14)]
  from r have "MakeCommandfile (job_id jlog) commands (Inr shfname)
                 \<in> set (snd (run P jlog ?self))"
    by simp
  with b c2 have "\<exists>commands.
               build_commands ?self wsdir results_dir = Inr commands
             \<and> commands ! 2
                 = ''git clone --depth=2 '' @ [CHR 0x27, CHR 0x27] @ '' '' @ wsdir @ ''/lb''
             \<and> MakeCommandfile (job_id jlog) commands (Inr shfname)
                 \<in> set (snd (run P jlog ?self))"
    by blast
  moreover from r have "fst (run P jlog ?self) = Inr (st = 0)"
    by simp
  moreover from s have "fst (set_job j w self) = Inr True"
    by simp
  ultimately show ?thesis
    using q by (intro conjI)
qed

text \<open>The witness is the run of the counterexample: the script exits with status 128.\<close>

theorem missing_live_build_git_witness:
  "fst (set_job (stable_amd64\<lparr>data := Mapping [(''suite'', PyStr ''stable'')]\<rparr>)
          ''/srv/ws'' init) = Inr True
   \<and> (\<exists>commands.
         build_commands
           (snd (set_job (stable_amd64\<lparr>data := Mapping [(''suite'', PyStr ''stable'')]\<rparr>)
                   ''/srv/ws'' init))
           ''/srv/ws'' ''/srv/results'' = Inr commands
       \<and> commands ! 2 = ''git clone --depth=2 '' @ [CHR 0x27, CHR 0x27] @ '' /srv/ws/lb''
       \<and> MakeCommandfile ''7'' commands (Inr ''/tmp/7.sh'')
           \<in> set (snd (run (simulated True
                              (\<lambda>argv. if argv = [''sh'', ''-e'', ''/tmp/7.sh''] then 128 else 0))
                         \<lparr>job_id = ''7''\<rparr>
                         (snd (set_job (stable_amd64\<lparr>data := Mapping [(''suite'', PyStr ''stable'')]\<rparr>)
                                 ''/srv/ws'' init)))))
   \<and> fst (run (simulated True (\<lambda>argv. if argv = [''sh'', ''-e'', ''/tmp/7.sh''] then 128 else 0))
            \<lparr>job_id = ''7''\<rparr>
            (snd (set_job (stable_amd64\<lparr>data := Mapping [(''suite'', PyStr ''stable'')]\<rparr>)
                    ''/srv/ws'' init)))
      = Inr False"
proof -
  let ?j = "stable_amd64\<lparr>data := Mapping [(''suite'', PyStr ''stable'')]\<rparr>"
  let ?P = "simulated True (\<lambda>argv. if argv = [''sh'', ''-e'', ''/tmp/7.sh''] then 128 else 0)"
  have d: "data ?j = Mapping [(''suite'', PyStr ''stable'')]"
    and a: "architecture ?j = PyStr ''amd64''"
    by (simp_all add: stable_amd64_def)
  note t = missing_live_build_git
    [where j = ?j and d = "[(''suite'', PyStr ''stable'')]" and P = ?P
       and jlog = "\<lparr>job_id = ''7''\<rparr>" and c = "''stable-amd64:7''"
       and wsdir = "''/srv/ws''" and results_dir = "''/srv/results''" and u = True
       and shfname = "''/tmp/7.sh''" and st = 128 and ?b1.0 = False and ?b2.0 = False
       and w = "''/srv/ws''" and self = init, OF d]
  have "fst (set_job ?j ''/srv/ws'' init) = Inr True
         \<and> shlex_quote (dict_get [(''suite'', PyStr ''stable'')] ''liveBuildGit'')
             = Inr [CHR 0x27, CHR 0x27]
         \<and> (\<exists>commands.
               build_commands (snd (set_job ?j ''/srv/ws'' init)) ''/srv/ws'' ''/srv/results''
                 = Inr commands
             \<and> commands ! 2
                 = ''git clone --depth=2 '' @ [CHR 0x27, CHR 0x27] @ '' '' @ ''/srv/ws'' @ ''/lb''
             \<and> MakeCommandfile (job_id \<lparr>job_id = ''7''\<rparr>) commands (Inr ''/tmp/7.sh'')
                 \<in> set (snd (run ?P \<lparr>job_id = ''7''\<rparr> (snd (set_job ?j ''/srv/ws'' init)))))
         \<and> fst (run ?P \<lparr>job_id = ''7''\<rparr> (snd (set_job ?j ''/srv/ws'' init)))
             = Inr ((128 :: int) = 0)"
    by (rule t) (simp_all add: a dict_get_def simulated_def install_git_def
          install_live_build_def)
  then show ?thesis
    by simp
qed

end
